theory Spec2Isabelle
  imports Complex_Main "HOL-Library.Sublist"
begin

section \<open>Python strings and lists\<close>

text \<open>
  A Python \<open>str\<close> is a sequence of code points. The model takes a text as a
  \<^typ>\<open>string\<close> whose characters are the code points 0..255 (the Latin-1 block of
  Unicode), so \<open>length\<close> counts code points as \<open>len\<close> does. The character classes
  and the case mapping below are those of Python, restricted to that block and given
  by code point.
\<close>

definition space_code :: "nat \<Rightarrow> bool" where
  "space_code k = ((9 \<le> k \<and> k \<le> 13) \<or> (28 \<le> k \<and> k \<le> 32) \<or> k = 133 \<or> k = 160)"

definition is_space :: "char \<Rightarrow> bool" where
  \<comment> \<open>\<open>str.isspace\<close>, which is also the class \<open>\s\<close> of \<open>re\<close> and what \<open>str.split()\<close> and \<open>str.strip()\<close> cut at\<close>
  "is_space c = space_code (of_char c)"

definition word_code :: "nat \<Rightarrow> bool" where
  "word_code k =
     ((48 \<le> k \<and> k \<le> 57) \<or> (65 \<le> k \<and> k \<le> 90) \<or> k = 95 \<or> (97 \<le> k \<and> k \<le> 122)
      \<or> k = 170 \<or> k = 178 \<or> k = 179 \<or> k = 181 \<or> k = 185 \<or> k = 186
      \<or> (188 \<le> k \<and> k \<le> 190) \<or> (192 \<le> k \<and> k \<le> 214)
      \<or> (216 \<le> k \<and> k \<le> 246) \<or> (248 \<le> k \<and> k \<le> 255))"

definition is_word :: "char \<Rightarrow> bool" where
  \<comment> \<open>the class \<open>\w\<close> of \<open>re\<close> on \<open>str\<close> patterns: alphanumeric code points and the underscore\<close>
  "is_word c = word_code (of_char c)"

definition upper_code :: "nat \<Rightarrow> bool" where
  \<comment> \<open>the code points that \<open>str.lower()\<close> changes; it moves each of them up by 32\<close>
  "upper_code k = ((65 \<le> k \<and> k \<le> 90) \<or> (192 \<le> k \<and> k \<le> 214) \<or> (216 \<le> k \<and> k \<le> 222))"

definition lower_char :: "char \<Rightarrow> char" where
  "lower_char c = (if upper_code (of_char c) then char_of (of_char c + 32 :: nat) else c)"

definition lower :: "string \<Rightarrow> string" where
  \<comment> \<open>\<open>str.lower()\<close>\<close>
  "lower s = map lower_char s"

fun split_acc :: "string \<Rightarrow> string \<Rightarrow> string list" where
  "split_acc cur [] = (if cur = [] then [] else [cur])"
| "split_acc cur (c # cs) =
     (if is_space c
      then (if cur = [] then split_acc [] cs else cur # split_acc [] cs)
      else split_acc (cur @ [c]) cs)"

definition split :: "string \<Rightarrow> string list" where
  \<comment> \<open>\<open>str.split()\<close> without argument: the maximal runs of non-whitespace characters\<close>
  "split s = split_acc [] s"

definition strip :: "string \<Rightarrow> string" where
  \<comment> \<open>\<open>str.strip()\<close> without argument\<close>
  "strip s = rev (dropWhile is_space (rev (dropWhile is_space s)))"

fun join :: "string \<Rightarrow> string list \<Rightarrow> string" where
  \<comment> \<open>\<open>sep.join(xs)\<close>\<close>
  "join sep [] = []"
| "join sep [x] = x"
| "join sep (x # y # ys) = x @ sep @ join sep (y # ys)"

definition word_or_space :: "char \<Rightarrow> bool" where
  \<comment> \<open>the class \<open>[\w\s]\<close>, whose complement the two substitutions below match\<close>
  "word_or_space c = (is_word c \<or> is_space c)"

definition blank_unless_kept :: "char \<Rightarrow> char" where
  "blank_unless_kept c = (if word_or_space c then c else CHR '' '')"

definition sub_nonword_space :: "string \<Rightarrow> string" where
  \<comment> \<open>\<open>re.sub(r'[^\w\s]', ' ', s)\<close>\<close>
  "sub_nonword_space s = map blank_unless_kept s"

definition sub_nonword_empty :: "string \<Rightarrow> string" where
  \<comment> \<open>\<open>re.sub(r'[^\w\s]', '', s)\<close>\<close>
  "sub_nonword_empty s = filter word_or_space s"

function sub_spaces :: "string \<Rightarrow> string" where
  \<comment> \<open>\<open>re.sub(r'\s+', ' ', s)\<close>: every maximal run of whitespace becomes one space\<close>
  "sub_spaces [] = []"
| "sub_spaces (c # cs) =
     (if is_space c then CHR '' '' # sub_spaces (dropWhile is_space cs)
      else c # sub_spaces cs)"
  by pat_completeness auto
termination
  by (relation "measure length") (auto simp: length_dropWhile_le le_imp_less_Suc)

fun re_split_acc :: "string \<Rightarrow> string \<Rightarrow> string list" where
  "re_split_acc cur [] = [cur]"
| "re_split_acc cur (c # cs) =
     (if c = CHR ''.'' \<or> c = CHR ''!'' \<or> c = CHR ''?''
      then cur # re_split_acc [] cs
      else re_split_acc (cur @ [c]) cs)"

definition re_split_terminators :: "string \<Rightarrow> string list" where
  \<comment> \<open>\<open>re.split(r'[.!?]', text)\<close>: empty pieces are kept\<close>
  "re_split_terminators s = re_split_acc [] s"

definition py_slice :: "'a list \<Rightarrow> int \<Rightarrow> int \<Rightarrow> 'a list" where
  \<comment> \<open>\<open>xs[start:stop]\<close>: a negative bound counts from the end, and both are clamped to the list\<close>
  "py_slice xs start stop =
     (let l = int (length xs);
          lo = (if start < 0 then max (start + l) 0 else min start l);
          hi = (if stop < 0 then max (stop + l) 0 else min stop l)
      in take (nat (hi - lo)) (drop (nat lo) xs))"

definition py_range :: "int \<Rightarrow> nat list" where
  \<comment> \<open>\<open>range(k)\<close>: empty when \<open>k \<le> 0\<close>\<close>
  "py_range k = [0 ..< nat k]"

section \<open>Local analysis engines\<close>

definition clean_text :: "string \<Rightarrow> string" where
  "clean_text text = strip (sub_spaces (sub_nonword_space (lower text)))"

definition get_ngrams :: "string \<Rightarrow> int \<Rightarrow> string list" where
  "get_ngrams text n =
     (let words = split (clean_text text)
      in map (\<lambda>i. join '' '' (py_slice words (int i) (int i + n)))
             (py_range (int (length words) - n + 1)))"

text \<open>
  The scoring functions are given twice. First in exact arithmetic: a \<open>float\<close> is a
  \<^typ>\<open>real\<close>, \<open>x ** 0.5\<close> is the square root, \<open>v ** 2\<close> the square, and a sum over a set
  has no order. What is proved of these definitions is what the code computes up to
  rounding. Then in binary64, where every operation rounds and the sums run in the
  iteration order of the set: that is the arithmetic of the program itself.
\<close>

definition calculate_tfidf_similarity :: "string \<Rightarrow> string \<Rightarrow> real" where
  "calculate_tfidf_similarity text1 text2 =
     (let words1 = split (clean_text text1);
          words2 = split (clean_text text2)
      in if words1 = [] \<or> words2 = [] then 0
         else
           let vocab = set (words1 @ words2);
               tf1 = (\<lambda>w. real (count_list words1 w) / real (length words1));
               tf2 = (\<lambda>w. real (count_list words2 w) / real (length words2));
               dot = (\<Sum>w\<in>vocab. tf1 w * tf2 w);
               norm1 = sqrt (\<Sum>w\<in>vocab. (tf1 w)\<^sup>2);
               norm2 = sqrt (\<Sum>w\<in>vocab. (tf2 w)\<^sup>2)
           in if norm1 = 0 \<or> norm2 = 0 then 0
              else (dot / (norm1 * norm2)) * 100)"

subsection \<open>The same measure in binary64\<close>

text \<open>
  CPython's \<open>float\<close> is IEEE 754 binary64, rounding to nearest, ties to even. Every float
  of \<open>calculate_tfidf_similarity\<close> is non-negative, so a value is a pair \<open>(m, e)\<close> of
  integers standing for \<open>m \<times> 2\<^sup>e\<close> with \<open>0 \<le> m\<close>. Each operation computes its result
  exactly, or with enough bits and a sticky bit, and rounds it to 53 significant bits.
  The exponent is not limited: overflow and gradual underflow are left out, neither
  being near the magnitudes that occur. \<open>int / int\<close>, \<open>*\<close>, \<open>+\<close> and \<open>/\<close> are correctly
  rounded in CPython; \<open>v ** 2\<close> and \<open>x ** 0.5\<close> call the C library's \<open>pow\<close>, taken here
  to return the correctly rounded square and square root. It does so at the arguments of
  the examples evaluated below; elsewhere \<open>pow\<close> may be one unit in the last place off,
  and the model of the whole analysis further down leaves it open.
\<close>

type_synonym f64 = "int \<times> int"

definition f64_value :: "f64 \<Rightarrow> rat" where
  "f64_value x =
     (if 0 \<le> snd x then of_int (fst x) * 2 ^ nat (snd x)
      else of_int (fst x) / 2 ^ nat (- snd x))"

function bitlen :: "int \<Rightarrow> nat" where
  \<comment> \<open>the number of binary digits of a positive integer\<close>
  "bitlen n = (if n \<le> 0 then 0 else Suc (bitlen (n div 2)))"
  by pat_completeness auto
termination
  by (relation "measure nat") auto

declare bitlen.simps [simp del]

definition round64 :: "int \<Rightarrow> int \<Rightarrow> f64" where
  \<comment> \<open>\<open>m \<times> 2\<^sup>e\<close> rounded to 53 significant bits, a tie going to the even neighbour\<close>
  "round64 m e =
     (let b = bitlen m
      in if b \<le> 53 then (m, e)
         else
           let s = b - 53;
               q = m div 2 ^ s;
               r = m mod 2 ^ s;
               h = 2 ^ (s - 1)
           in (if r < h then q else if h < r then q + 1 else if even q then q else q + 1,
               e + int s))"

definition mul64 :: "f64 \<Rightarrow> f64 \<Rightarrow> f64" where
  "mul64 a b = round64 (fst a * fst b) (snd a + snd b)"

definition add64 :: "f64 \<Rightarrow> f64 \<Rightarrow> f64" where
  "add64 a b =
     (let e = min (snd a) (snd b)
      in round64 (fst a * 2 ^ nat (snd a - e) + fst b * 2 ^ nat (snd b - e)) e)"

definition div64 :: "f64 \<Rightarrow> f64 \<Rightarrow> f64" where
  \<comment> \<open>for a positive divisor: a quotient of at least 110 bits, and whether a remainder is left\<close>
  "div64 a b =
     (let k = 110 + bitlen (fst b);
          n = fst a * 2 ^ k;
          q = n div fst b;
          sticky = (if n mod fst b = 0 then 0 else 1)
      in round64 (2 * q + sticky) (snd a - snd b - int k - 1))"

fun isqrt_bits :: "nat \<Rightarrow> int \<Rightarrow> int \<Rightarrow> int" where
  "isqrt_bits 0 r y = r"
| "isqrt_bits (Suc k) r y =
     (if (r + 2 ^ k) * (r + 2 ^ k) \<le> y then isqrt_bits k (r + 2 ^ k) y else isqrt_bits k r y)"

definition isqrt :: "int \<Rightarrow> int" where
  \<comment> \<open>the integer square root, found bit by bit from the top\<close>
  "isqrt y = isqrt_bits (bitlen y) 0 y"

definition sqrt64 :: "f64 \<Rightarrow> f64" where
  \<comment> \<open>the exponent is made even, the mantissa scaled by \<open>4\<^sup>6\<^sup>4\<close>, and its integer root rounded\<close>
  "sqrt64 a =
     (let m = (if even (snd a) then fst a else 2 * fst a);
          e = (if even (snd a) then snd a else snd a - 1);
          y = m * 4 ^ 64;
          s = isqrt y;
          sticky = (if s * s = y then 0 else 1)
      in round64 (2 * s + sticky) (e div 2 - 65))"

definition sum64 :: "f64 list \<Rightarrow> f64" where
  \<comment> \<open>\<open>sum(...)\<close>: it starts from the integer \<open>0\<close> and adds the floats from left to right
      (from Python 3.12 on it also carries a correction for the rounding errors made, which
      is zero where every partial sum is exact)\<close>
  "sum64 xs = foldl add64 (0, 0) xs"

definition tf64 :: "string list \<Rightarrow> string \<Rightarrow> f64" where
  \<comment> \<open>\<open>words.count(w) / len(words)\<close>\<close>
  "tf64 words w = div64 (int (count_list words w), 0) (int (length words), 0)"

definition dot_term :: "string list \<Rightarrow> string list \<Rightarrow> string \<Rightarrow> f64" where
  "dot_term words1 words2 w = mul64 (tf64 words1 w) (tf64 words2 w)"

definition square_term :: "string list \<Rightarrow> string \<Rightarrow> f64" where
  "square_term words w = mul64 (tf64 words w) (tf64 words w)"

text \<open>
  The sums run over a \<open>set\<close> and over the values of two \<open>dict\<close>s built from it, all in
  the iteration order of that set, which CPython fixes by the hashes of the strings. The
  order is the parameter \<open>order\<close>: it maps the list that the set is built from to the
  sequence in which the set yields its elements.
\<close>

definition calculate_tfidf_similarity_f64 ::
  "(string list \<Rightarrow> string list) \<Rightarrow> string \<Rightarrow> string \<Rightarrow> f64" where
  "calculate_tfidf_similarity_f64 order text1 text2 =
     (let words1 = split (clean_text text1);
          words2 = split (clean_text text2)
      in if words1 = [] \<or> words2 = [] then (0, 0)
         else
           let vocab = order (words1 @ words2);
               dot = sum64 (map (dot_term words1 words2) vocab);
               norm1 = sqrt64 (sum64 (map (square_term words1) vocab));
               norm2 = sqrt64 (sum64 (map (square_term words2) vocab))
           in if fst norm1 = 0 \<or> fst norm2 = 0 then (0, 0)
              else mul64 (div64 dot (mul64 norm1 norm2)) (100, 0))"

definition calculate_ngram_overlap :: "string \<Rightarrow> string \<Rightarrow> int \<Rightarrow> real" where
  "calculate_ngram_overlap text1 text2 n =
     (let ngrams1 = set (get_ngrams text1 n);
          ngrams2 = set (get_ngrams text2 n)
      in if ngrams1 = {} then 0
         else
           let overlap = card (ngrams1 \<inter> ngrams2)
           in (real overlap / real (card ngrams1)) * 100)"

text \<open>
  The loop of \<open>extract_key_phrases\<close> over the sentences, with its two accumulators;
  the \<open>break\<close> is the branch that returns without looking at the remaining sentences.
\<close>

fun extract_loop :: "int \<Rightarrow> int \<Rightarrow> string list \<Rightarrow> string list \<Rightarrow> string set \<Rightarrow> string list" where
  "extract_loop min_words max_phrases [] phrases seen = phrases"
| "extract_loop min_words max_phrases (sentence # rest) phrases seen =
     (let words = split (sub_nonword_empty sentence)
      in if int (length words) \<ge> min_words
         then
           let phrase = join '' '' (py_slice words 0 min_words);
               phrase_lower = lower phrase
           in if phrase_lower \<notin> seen \<and> length phrase > 20
              then
                let seen' = insert phrase_lower seen;
                    phrases' = phrases @ [phrase]
                in if int (length phrases') \<ge> max_phrases then phrases'
                   else extract_loop min_words max_phrases rest phrases' seen'
              else extract_loop min_words max_phrases rest phrases seen
         else extract_loop min_words max_phrases rest phrases seen)"

definition extract_key_phrases :: "string \<Rightarrow> int \<Rightarrow> int \<Rightarrow> string list" where
  "extract_key_phrases text min_words max_phrases =
     extract_loop min_words max_phrases (re_split_terminators text) [] {}"

section \<open>Reference corpus\<close>

record reference =
  ref_id :: string
  ref_name :: string
  ref_type :: string
  ref_text :: string

definition ACADEMIC_REFERENCES :: "reference list" where
  "ACADEMIC_REFERENCES =
     [\<lparr>ref_id = ''WHO2024'',
       ref_name = ''WHO Global TB Report 2024'',
       ref_type = ''Official Report'',
       ref_text =
         ''Global tuberculosis report 2024. Tuberculosis remains one of the \<newline>'' @
         ''            world's deadliest infectious diseases. India accounts for 26% of the global \<newline>'' @
         ''            TB burden. Early diagnosis and prompt treatment are essential to end TB.''\<rparr>,
      \<lparr>ref_id = ''Teo2021'',
       ref_name = ''Teo et al. 2021 - TB Delays Review'',
       ref_type = ''Meta-analysis'',
       ref_text =
         ''Duration and determinants of delayed tuberculosis diagnosis and treatment \<newline>'' @
         ''            in high-burden countries: a mixed-methods systematic review and meta-analysis.\<newline>'' @
         ''            Tuberculosis diagnostic and treatment delays continue to pose major challenges.''\<rparr>,
      \<lparr>ref_id = ''Storla2008'',
       ref_name = ''Storla et al. 2008 - Delay Review'',
       ref_type = ''Systematic Review'',
       ref_text =
         ''A systematic review of delay in the diagnosis and treatment of tuberculosis.\<newline>'' @
         ''            Delayed diagnosis and treatment results in increased infectivity and poor outcomes.\<newline>'' @
         ''            Delays are categorized into patient delay, health system delay, and total delay.''\<rparr>,
      \<lparr>ref_id = ''Sreeramareddy2009'',
       ref_name = ''Sreeramareddy et al. 2009'',
       ref_type = ''Systematic Review'',
       ref_text =
         ''Time delays in diagnosis of pulmonary tuberculosis: a systematic review.\<newline>'' @
         ''            We conducted a systematic review to estimate time delays in diagnosis.\<newline>'' @
         ''            Patient delay contributes significantly to the total delay.''\<rparr>,
      \<lparr>ref_id = ''Subbaraman2016'',
       ref_name = ''Subbaraman et al. 2016 - India TB Cascade'',
       ref_type = ''Meta-analysis'',
       ref_text =
         ''The tuberculosis cascade of care in India's public sector: \<newline>'' @
         ''            a systematic review and meta-analysis. India has the highest TB burden globally.\<newline>'' @
         ''            We estimated the proportion of patients lost at each stage of the care cascade.''\<rparr>]"

section \<open>Data classes\<close>

record APIConfig =
  copyleaks_email :: "string option"
  copyleaks_key :: "string option"
  zerogpt_key :: "string option"
  google_api_key :: "string option"
  google_cse_id :: "string option"

record SourceMatch =
  name :: string
  source_type :: string
  similarity :: real
  url :: "string option"
  matched_phrases :: "string list option"

record KeyPhrase =
  \<comment> \<open>the dict with the keys \<open>'text'\<close>, \<open>'found'\<close> and \<open>'source'\<close> that \<open>analyze\<close> builds for each phrase\<close>
  phrase_text :: string
  phrase_found :: bool
  phrase_source :: "string option"

record AnalysisResult =
  overall_score :: real
  word_count :: nat
  unique_words :: nat
  max_match :: real
  sources_checked :: nat
  sources :: "SourceMatch list"
  key_phrases :: "KeyPhrase list"
  api_status :: "(string \<times> string) list"
  timestamp :: string

text \<open>
  \<open>api_status\<close> is a \<open>dict\<close>, modelled as an association list in insertion order;
  assigning to a key that is present keeps its position.
\<close>

fun dict_set :: "'k \<Rightarrow> 'v \<Rightarrow> ('k \<times> 'v) list \<Rightarrow> ('k \<times> 'v) list" where
  "dict_set k v [] = [(k, v)]"
| "dict_set k v ((k', v') # kvs) =
     (if k' = k then (k, v) # kvs else (k', v') # dict_set k v kvs)"

definition truthy :: "string option \<Rightarrow> bool" where
  \<comment> \<open>the truth value of an \<open>Optional[str]\<close>: \<open>None\<close> and the empty string are false\<close>
  "truthy x = (case x of None \<Rightarrow> False | Some s \<Rightarrow> s \<noteq> [])"

section \<open>API integrations\<close>

text \<open>
  The remote services and the clock are the world the program runs in. A \<open>world\<close> fixes
  what each request of one call of \<open>analyze\<close> is answered with: \<open>Raised\<close> when the
  \<open>try\<close> block raises (the handler prints and the wrapper returns its failure value),
  \<open>Reply\<close> with the status code and what the wrapper reads from the JSON body otherwise.
  Every request made and every line printed is recorded as an \<open>event\<close>. A JSON body is
  kept as the list of the entries of its top-level object, which is what its truth value
  depends on.
\<close>

datatype 'a reply = Raised | Reply 'a

type_synonym json = "(string \<times> string) list"

record world =
  login_reply :: "(nat \<times> string option) reply"
  scan_reply :: "nat reply"
  zerogpt_reply :: "(nat \<times> json) reply"
  unix_time :: string
  now_isoformat :: string

datatype message =
    StartingAnalysis | RunningTfidf | ExtractingPhrases
  | RunningCopyleaks | RunningZeroGPT
  | CopyleaksLoginError | CopyleaksScanError | ZeroGPTError

datatype service = CopyleaksLogin | CopyleaksScan | ZeroGPTDetect

datatype event = Print message | Request service

record CopyleaksAPI =
  email :: string
  api_key :: string
  token :: "string option"

record ZeroGPTAPI =
  zerogpt_api_key :: string

record GoogleScholarSearch =
  google_key :: string
  cse_id :: string

definition login :: "world \<Rightarrow> CopyleaksAPI \<Rightarrow> bool \<times> CopyleaksAPI \<times> event list" where
  "login w self =
     (case login_reply w of
        Raised \<Rightarrow> (False, self, [Request CopyleaksLogin, Print CopyleaksLoginError])
      | Reply (status_code, access_token) \<Rightarrow>
          if status_code = 200
          then (True, self\<lparr>token := access_token\<rparr>, [Request CopyleaksLogin])
          else (False, self, [Request CopyleaksLogin]))"

definition check_plagiarism ::
  "world \<Rightarrow> CopyleaksAPI \<Rightarrow> string \<Rightarrow> bool \<Rightarrow> json option \<times> CopyleaksAPI \<times> event list" where
  "check_plagiarism w self text sandbox =
     (let (logged_in, self1, ev1) =
            (if \<not> truthy (token self) then login w self else (True, self, []))
      in if \<not> truthy (token self) \<and> \<not> logged_in then (None, self1, ev1)
         else
           let scan_id = ''scan_'' @ unix_time w
           in case scan_reply w of
                Raised \<Rightarrow> (None, self1, ev1 @ [Request CopyleaksScan, Print CopyleaksScanError])
              | Reply status_code \<Rightarrow>
                  if status_code = 200 \<or> status_code = 201
                  then (Some [(''status'', ''submitted''), (''scan_id'', scan_id)], self1,
                        ev1 @ [Request CopyleaksScan])
                  else (None, self1, ev1 @ [Request CopyleaksScan]))"

definition check :: "world \<Rightarrow> ZeroGPTAPI \<Rightarrow> string \<Rightarrow> json option \<times> event list" where
  "check w self text =
     (case zerogpt_reply w of
        Raised \<Rightarrow> (None, [Request ZeroGPTDetect, Print ZeroGPTError])
      | Reply (status_code, body) \<Rightarrow>
          if status_code = 200 then (Some body, [Request ZeroGPTDetect])
          else (None, [Request ZeroGPTDetect]))"

definition truthy_result :: "json option \<Rightarrow> bool" where
  \<comment> \<open>the truth value of an \<open>Optional[Dict]\<close>: \<open>None\<close> and the empty dict are false\<close>
  "truthy_result r = (case r of None \<Rightarrow> False | Some d \<Rightarrow> d \<noteq> [])"

section \<open>Main analysis engine\<close>

record PlagiarismChecker =
  config :: APIConfig
  copyleaks :: "CopyleaksAPI option"
  zerogpt :: "ZeroGPTAPI option"
  google :: "GoogleScholarSearch option"

definition new_checker :: "APIConfig \<Rightarrow> PlagiarismChecker" where
  \<comment> \<open>\<open>PlagiarismChecker.__init__\<close>\<close>
  "new_checker cfg =
     \<lparr>config = cfg,
      copyleaks =
        (if truthy (copyleaks_email cfg) \<and> truthy (copyleaks_key cfg)
         then Some \<lparr>email = the (copyleaks_email cfg), api_key = the (copyleaks_key cfg),
                    token = None\<rparr>
         else None),
      zerogpt =
        (if truthy (zerogpt_key cfg)
         then Some \<lparr>zerogpt_api_key = the (zerogpt_key cfg)\<rparr> else None),
      google =
        (if truthy (google_api_key cfg) \<and> truthy (google_cse_id cfg)
         then Some \<lparr>google_key = the (google_api_key cfg), cse_id = the (google_cse_id cfg)\<rparr>
         else None)\<rparr>"

text \<open>The loop of \<open>analyze\<close> over the reference corpus, with \<open>sources\<close> and \<open>max_match\<close>.\<close>

fun score_references ::
  "string \<Rightarrow> reference list \<Rightarrow> SourceMatch list \<Rightarrow> real \<Rightarrow> SourceMatch list \<times> real" where
  "score_references text [] srcs mx = (srcs, mx)"
| "score_references text (ref # refs) srcs mx =
     (let tfidf_sim = calculate_tfidf_similarity text (ref_text ref);
          ngram_sim = calculate_ngram_overlap text (ref_text ref) 3;
          combined = (tfidf_sim * 0.6) + (ngram_sim * 0.4);
          srcs' = srcs @ [\<lparr>name = ref_name ref, source_type = ref_type ref,
                            similarity = combined, url = None, matched_phrases = None\<rparr>];
          mx' = (if combined > mx then combined else mx)
      in score_references text refs srcs' mx')"

definition classify_phrase :: "string \<Rightarrow> KeyPhrase" where
  "classify_phrase phrase =
     (let found = list_ex (\<lambda>pattern. sublist pattern (lower phrase))
                    [''the results show'', ''in this study'', ''we found that'']
      in \<lparr>phrase_text = phrase, phrase_found = found,
          phrase_source = (if found then Some ''Common Pattern'' else None)\<rparr>)"

definition sort_reverse :: "('a \<Rightarrow> 'k::linorder) \<Rightarrow> 'a list \<Rightarrow> 'a list" where
  \<comment> \<open>\<open>xs.sort(key=f, reverse=True)\<close>: the list is reversed, sorted stably, and reversed again\<close>
  "sort_reverse f xs = rev (sort_key f (rev xs))"

text \<open>The block \<open>if use_apis: ...\<close> of \<open>analyze\<close>.\<close>

definition api_checks ::
  "world \<Rightarrow> PlagiarismChecker \<Rightarrow> string \<Rightarrow> bool \<Rightarrow> bool \<Rightarrow> (string \<times> string) list
     \<Rightarrow> (string \<times> string) list \<times> PlagiarismChecker \<times> event list" where
  "api_checks w self text use_apis verbose status =
     (if use_apis then
        let (status1, self1, ev1) =
              (case copyleaks self of
                 Some api \<Rightarrow>
                   if verbose then
                     let (result, api', ev) = check_plagiarism w api text True
                     in (dict_set ''Copyleaks'' (if truthy_result result then ''Submitted'' else ''Error'') status,
                         self\<lparr>copyleaks := Some api'\<rparr>,
                         Print RunningCopyleaks # ev)
                   else (status, self, [])
               | None \<Rightarrow> (status, self, []));
            (status2, ev2) =
              (case zerogpt self1 of
                 Some api \<Rightarrow>
                   if verbose then
                     let (result, ev) = check w api text
                     in (dict_set ''ZeroGPT'' (if truthy_result result then ''Complete'' else ''Error'') status1,
                         Print RunningZeroGPT # ev)
                   else (status1, [])
               | None \<Rightarrow> (status1, []))
        in (status2, self1, ev1 @ ev2)
      else (status, self, []))"

text \<open>The \<open>api_status\<close> dict as \<open>analyze\<close> first builds it.\<close>

definition initial_status :: "PlagiarismChecker \<Rightarrow> (string \<times> string) list" where
  "initial_status self =
     [(''Copyleaks'', if copyleaks self = None then ''Not configured'' else ''Ready''),
      (''ZeroGPT'', if zerogpt self = None then ''Not configured'' else ''Ready''),
      (''Google Scholar'', if google self = None then ''Not configured'' else ''Ready''),
      (''Local TF-IDF'', ''Active''),
      (''N-gram Analysis'', ''Active'')]"

text \<open>
  \<open>analyze\<close> reads the module-level list \<open>ACADEMIC_REFERENCES\<close> when it is called;
  \<open>analyze_corpus\<close> is its body with that list as an argument. It returns the result,
  the checker object as the call leaves it, and the events of the call.
\<close>

definition analyze_corpus ::
  "reference list \<Rightarrow> world \<Rightarrow> PlagiarismChecker \<Rightarrow> string \<Rightarrow> bool \<Rightarrow> bool
     \<Rightarrow> AnalysisResult \<times> PlagiarismChecker \<times> event list" where
  "analyze_corpus refs w self text use_apis verbose =
     (let ev0 = (if verbose then [Print StartingAnalysis] else []);
          words = split text;
          wc = length words;
          uw = card (set (map lower words));
          status = initial_status self;
          ev1 = (if verbose then [Print RunningTfidf] else []);
          (srcs, mx) = score_references text refs [] 0;
          ev2 = (if verbose then [Print ExtractingPhrases] else []);
          phrases = extract_key_phrases text 6 15;
          phrase_results = map classify_phrase phrases;
          (status', self', ev3) = api_checks w self text use_apis verbose status;
          source_scores = map similarity srcs;
          overall = (if source_scores \<noteq> [] then sum_list source_scores / real (length source_scores)
                     else 0);
          srcs' = sort_reverse similarity srcs
      in (\<lparr>overall_score = overall,
           word_count = wc,
           unique_words = uw,
           max_match = mx,
           sources_checked = length srcs',
           sources = srcs',
           key_phrases = phrase_results,
           api_status = status',
           timestamp = now_isoformat w\<rparr>,
          self',
          ev0 @ ev1 @ ev2 @ ev3))"

definition analyze ::
  "world \<Rightarrow> PlagiarismChecker \<Rightarrow> string \<Rightarrow> bool \<Rightarrow> bool
     \<Rightarrow> AnalysisResult \<times> PlagiarismChecker \<times> event list" where
  "analyze = analyze_corpus ACADEMIC_REFERENCES"

subsection \<open>The orchestration in binary64\<close>

text \<open>
  What one run of the program fixes beyond its arguments: the order in which a set of
  strings yields its elements (CPython derives it from the hashes of the strings, which
  are seeded anew for each interpreter process), what the C library's \<open>pow\<close> returns for the
  exponents \<open>0.5\<close> and \<open>2\<close>, and how \<open>sum\<close> adds floats. A \<open>platform\<close> holds the four, so
  that nothing is assumed of them; \<open>calculate_tfidf_similarity_on\<close> and \<open>analyze_f64\<close>
  are the source functions again, in binary64 and on a given platform.
\<close>

record platform =
  set_order :: "string list \<Rightarrow> string list"
  pow_half :: "f64 \<Rightarrow> f64"
  pow_two :: "f64 \<Rightarrow> f64"
  float_sum :: "f64 list \<Rightarrow> f64"

definition square64 :: "f64 \<Rightarrow> f64" where
  \<comment> \<open>the correctly rounded square\<close>
  "square64 v = mul64 v v"

definition square_term_on :: "platform \<Rightarrow> string list \<Rightarrow> string \<Rightarrow> f64" where
  "square_term_on p words w = pow_two p (tf64 words w)"

definition calculate_tfidf_similarity_on :: "platform \<Rightarrow> string \<Rightarrow> string \<Rightarrow> f64" where
  "calculate_tfidf_similarity_on p text1 text2 =
     (let words1 = split (clean_text text1);
          words2 = split (clean_text text2)
      in if words1 = [] \<or> words2 = [] then (0, 0)
         else
           let vocab = set_order p (words1 @ words2);
               dot = float_sum p (map (dot_term words1 words2) vocab);
               norm1 = pow_half p (float_sum p (map (square_term_on p words1) vocab));
               norm2 = pow_half p (float_sum p (map (square_term_on p words2) vocab))
           in if fst norm1 = 0 \<or> fst norm2 = 0 then (0, 0)
              else mul64 (div64 dot (mul64 norm1 norm2)) (100, 0))"

definition calculate_ngram_overlap_f64 :: "string \<Rightarrow> string \<Rightarrow> int \<Rightarrow> f64" where
  "calculate_ngram_overlap_f64 text1 text2 n =
     (let ngrams1 = set (get_ngrams text1 n);
          ngrams2 = set (get_ngrams text2 n)
      in if ngrams1 = {} then (0, 0)
         else
           let overlap = card (ngrams1 \<inter> ngrams2)
           in mul64 (div64 (int overlap, 0) (int (card ngrams1), 0)) (100, 0))"

record SourceMatch_f64 =
  name_f64 :: string
  source_type_f64 :: string
  similarity_f64 :: f64
  url_f64 :: "string option"
  matched_phrases_f64 :: "string list option"

record AnalysisResult_f64 =
  overall_score_f64 :: f64
  word_count_f64 :: nat
  unique_words_f64 :: nat
  max_match_f64 :: f64
  sources_checked_f64 :: nat
  sources_f64 :: "SourceMatch_f64 list"
  key_phrases_f64 :: "KeyPhrase list"
  api_status_f64 :: "(string \<times> string) list"
  timestamp_f64 :: string

definition combined_f64 :: "platform \<Rightarrow> string \<Rightarrow> string \<Rightarrow> f64" where
  \<comment> \<open>the literals \<open>0.6\<close> and \<open>0.4\<close> are the floats nearest to 6/10 and 4/10\<close>
  "combined_f64 p text ref_txt =
     (let tfidf_sim = calculate_tfidf_similarity_on p text ref_txt;
          ngram_sim = calculate_ngram_overlap_f64 text ref_txt 3
      in add64 (mul64 tfidf_sim (div64 (6, 0) (10, 0))) (mul64 ngram_sim (div64 (4, 0) (10, 0))))"

fun score_references_f64 ::
  "platform \<Rightarrow> string \<Rightarrow> reference list \<Rightarrow> SourceMatch_f64 list \<Rightarrow> f64
     \<Rightarrow> SourceMatch_f64 list \<times> f64" where
  "score_references_f64 p text [] srcs mx = (srcs, mx)"
| "score_references_f64 p text (ref # refs) srcs mx =
     (let combined = combined_f64 p text (ref_text ref);
          srcs' = srcs @ [\<lparr>name_f64 = ref_name ref, source_type_f64 = ref_type ref,
                            similarity_f64 = combined, url_f64 = None,
                            matched_phrases_f64 = None\<rparr>];
          mx' = (if f64_value combined > f64_value mx then combined else mx)
      in score_references_f64 p text refs srcs' mx')"

definition similarity_value :: "SourceMatch_f64 \<Rightarrow> rat" where
  "similarity_value s = f64_value (similarity_f64 s)"

definition analyze_f64 ::
  "platform \<Rightarrow> reference list \<Rightarrow> world \<Rightarrow> PlagiarismChecker \<Rightarrow> string \<Rightarrow> bool \<Rightarrow> bool
     \<Rightarrow> AnalysisResult_f64 \<times> PlagiarismChecker \<times> event list" where
  "analyze_f64 p refs w self text use_apis verbose =
     (let ev0 = (if verbose then [Print StartingAnalysis] else []);
          words = split text;
          wc = length words;
          uw = card (set (map lower words));
          status = initial_status self;
          ev1 = (if verbose then [Print RunningTfidf] else []);
          (srcs, mx) = score_references_f64 p text refs [] (0, 0);
          ev2 = (if verbose then [Print ExtractingPhrases] else []);
          phrases = extract_key_phrases text 6 15;
          phrase_results = map classify_phrase phrases;
          (status', self', ev3) = api_checks w self text use_apis verbose status;
          source_scores = map similarity_f64 srcs;
          overall = (if source_scores \<noteq> []
                     then div64 (float_sum p source_scores) (int (length source_scores), 0)
                     else (0, 0));
          srcs' = sort_reverse similarity_value srcs
      in (\<lparr>overall_score_f64 = overall,
           word_count_f64 = wc,
           unique_words_f64 = uw,
           max_match_f64 = mx,
           sources_checked_f64 = length srcs',
           sources_f64 = srcs',
           key_phrases_f64 = phrase_results,
           api_status_f64 = status',
           timestamp_f64 = now_isoformat w\<rparr>,
          self',
          ev0 @ ev1 @ ev2 @ ev3))"

text \<open>The entry of one reference, its label, and one step of the running maximum.\<close>

definition source_match_f64 :: "platform \<Rightarrow> string \<Rightarrow> reference \<Rightarrow> SourceMatch_f64" where
  "source_match_f64 p text ref =
     \<lparr>name_f64 = ref_name ref, source_type_f64 = ref_type ref,
      similarity_f64 = combined_f64 p text (ref_text ref),
      url_f64 = None, matched_phrases_f64 = None\<rparr>"

definition source_label :: "SourceMatch_f64 \<Rightarrow> string \<times> string" where
  "source_label s = (name_f64 s, source_type_f64 s)"

definition later_max :: "f64 \<Rightarrow> f64 \<Rightarrow> f64" where
  "later_max mx c = (if f64_value c > f64_value mx then c else mx)"

text \<open>The entry that one pass of the corpus loop appends to \<open>sources\<close>.\<close>

definition source_match :: "string \<Rightarrow> reference \<Rightarrow> SourceMatch" where
  "source_match text ref =
     \<lparr>name = ref_name ref, source_type = ref_type ref,
      similarity = (calculate_tfidf_similarity text (ref_text ref) * 0.6)
                   + (calculate_ngram_overlap text (ref_text ref) 3 * 0.4),
      url = None, matched_phrases = None\<rparr>"

text \<open>
  What the loop of \<open>extract_key_phrases\<close> computes for one sentence: its candidate
  phrase, and whether the sentence has enough words and a phrase of more than 20
  characters.
\<close>

definition phrase_of :: "int \<Rightarrow> string \<Rightarrow> string" where
  "phrase_of min_words sentence =
     join '' '' (py_slice (split (sub_nonword_empty sentence)) 0 min_words)"

definition qualifies :: "int \<Rightarrow> string \<Rightarrow> bool" where
  "qualifies min_words sentence =
     (int (length (split (sub_nonword_empty sentence))) \<ge> min_words \<and>
      length (phrase_of min_words sentence) > 20)"

definition qualifying_phrases :: "int \<Rightarrow> string list \<Rightarrow> string list" where
  "qualifying_phrases min_words sentences =
     map (phrase_of min_words) (filter (qualifies min_words) sentences)"

text \<open>Two worlds in which the remote services give the same answers.\<close>

definition same_replies :: "world \<Rightarrow> world \<Rightarrow> bool" where
  "same_replies wa wb =
     (login_reply wa = login_reply wb \<and> scan_reply wa = scan_reply wb \<and>
      zerogpt_reply wa = zerogpt_reply wb)"

subsection \<open>Sample inputs\<close>

definition online_world :: world where
  "online_world =
     \<lparr>login_reply = Reply (200, Some ''token''), scan_reply = Reply 201,
      zerogpt_reply = Reply (200, [(''success'', ''true'')]),
      unix_time = ''1700000000'', now_isoformat = ''2023-11-14T22:13:20''\<rparr>"

definition offline_world :: world where
  "offline_world =
     \<lparr>login_reply = Raised, scan_reply = Raised, zerogpt_reply = Raised,
      unix_time = ''1700000000'', now_isoformat = ''2023-11-14T22:13:20''\<rparr>"

definition sample_config :: APIConfig where
  "sample_config =
     \<lparr>copyleaks_email = Some ''user@example.org'', copyleaks_key = Some ''key'',
      zerogpt_key = Some ''key'', google_api_key = None, google_cse_id = None\<rparr>"

definition phrases_text :: string where
  "phrases_text = ''tuberculosis diagnosis. Tuberculosis Diagnosis! systematic meta-analysis''"

definition small_corpus :: "reference list" where
  "small_corpus =
     [\<lparr>ref_id = ''R1'', ref_name = ''First'', ref_type = ''Note'', ref_text = ''Delay.''\<rparr>,
      \<lparr>ref_id = ''R2'', ref_name = ''Second'', ref_type = ''Note'', ref_text = ''TB''\<rparr>,
      \<lparr>ref_id = ''R3'', ref_name = ''Third'', ref_type = ''Note'', ref_text = ''tb!''\<rparr>]"

text \<open>
  A platform with correctly rounded \<open>pow\<close> and plain left-to-right \<open>sum\<close>, and the same
  with another iteration order of sets, as another hash seed gives.
\<close>

definition cpython :: platform where
  "cpython = \<lparr>set_order = remdups, pow_half = sqrt64, pow_two = square64, float_sum = sum64\<rparr>"

definition reversed_order :: "string list \<Rightarrow> string list" where
  "reversed_order ws = rev (remdups ws)"

definition cpython_reseeded :: platform where
  "cpython_reseeded =
     \<lparr>set_order = reversed_order, pow_half = sqrt64, pow_two = square64, float_sum = sum64\<rparr>"

definition rounding_corpus :: "reference list" where
  "rounding_corpus =
     [\<lparr>ref_id = ''R1'', ref_name = ''First'', ref_type = ''Note'', ref_text = ''a''\<rparr>,
      \<lparr>ref_id = ''R2'', ref_name = ''Second'', ref_type = ''Note'', ref_text = ''a b''\<rparr>,
      \<lparr>ref_id = ''R3'', ref_name = ''Third'', ref_type = ''Note'', ref_text = ''a c''\<rparr>]"

definition order_corpus :: "reference list" where
  "order_corpus =
     [\<lparr>ref_id = ''R1'', ref_name = ''Only'', ref_type = ''Note'', ref_text = ''a a a b c''\<rparr>]"

section \<open>N-gram generation\<close>

text \<open>
  Slicing and \<open>range\<close> never raise in Python, whatever the bounds, so \<open>get_ngrams\<close>
  has no error branch; what a non-positive window length changes is the result.
\<close>

lemma length_get_ngrams:
  "length (get_ngrams text n) = nat (int (length (split (clean_text text))) - n + 1)"
  by (simp add: get_ngrams_def py_range_def Let_def)

lemma py_slice_empty_window: "0 \<le> i \<Longrightarrow> py_slice xs i i = []"
  by (simp add: py_slice_def Let_def)

lemma get_ngrams_zero_entries:
  "x \<in> set (get_ngrams text 0) \<Longrightarrow> x = []"
  by (auto simp: get_ngrams_def Let_def py_slice_empty_window)

text \<open>
  C1, as stated: for every text and every window length \<open>n \<le> 0\<close>, \<open>get_ngrams\<close>
  returns an empty sequence. It does not: with \<open>n = 0\<close> the text \<open>one two\<close> gives three
  empty strings, and with \<open>n = -1\<close> it gives four entries, the first of them \<open>one\<close>.
\<close>

theorem get_ngrams_nonpositive_counterexample:
  "get_ngrams ''one two'' 0 = [[], [], []] \<and>
   get_ngrams ''one two'' (- 1) = [''one'', [], [], []]"
  by code_simp

text \<open>
  C1, amended: for every text and every window length \<open>n \<le> 0\<close>, \<open>get_ngrams\<close> returns
  (without a fault) a non-empty sequence of \<open>len(words) - n + 1\<close> strings, where \<open>words\<close>
  is the normalized token sequence; for \<open>n = 0\<close> every one of them is the empty string.
\<close>

theorem get_ngrams_nonpositive:
  assumes "n \<le> 0"
  shows "length (get_ngrams text n) = length (split (clean_text text)) + nat (- n) + 1
         \<and> get_ngrams text n \<noteq> []
         \<and> (n = 0 \<longrightarrow> (\<forall>x \<in> set (get_ngrams text n). x = []))"
proof -
  have len: "length (get_ngrams text n) = length (split (clean_text text)) + nat (- n) + 1"
    using assms by (simp add: length_get_ngrams nat_add_distrib nat_diff_distrib')
  then have "length (get_ngrams text n) \<noteq> 0"
    by simp
  then have "get_ngrams text n \<noteq> []"
    by simp
  with len show ?thesis
    by (auto dest: get_ngrams_zero_entries)
qed

theorem get_ngrams_nonpositive_witness:
  "(0::int) \<le> 0
   \<and> length (get_ngrams ''one two'' 0) = length (split (clean_text ''one two'')) + nat (- 0) + 1
   \<and> get_ngrams ''one two'' 0 \<noteq> []
   \<and> set (get_ngrams ''one two'' 0) = {[]}"
  using get_ngrams_nonpositive [of 0 "''one two''"]
  by (cases "get_ngrams ''one two'' 0") auto


section \<open>N-gram overlap\<close>

lemma calculate_ngram_overlap_nonneg: "0 \<le> calculate_ngram_overlap a b n"
  by (simp add: calculate_ngram_overlap_def Let_def)

lemma calculate_ngram_overlap_le: "calculate_ngram_overlap a b n \<le> 100"
proof -
  have "card (set (get_ngrams a n) \<inter> set (get_ngrams b n)) \<le> card (set (get_ngrams a n))"
    by (rule card_mono) auto
  then show ?thesis
    by (auto simp: calculate_ngram_overlap_def Let_def divide_le_eq card_gt_0_iff)
qed

lemma overlap_example_forward: "calculate_ngram_overlap ''a b c d'' ''a b c x y z'' 3 = 50"
  by code_simp

lemma overlap_example_backward: "calculate_ngram_overlap ''a b c x y z'' ''a b c d'' 3 = 25"
  by code_simp

text \<open>
  C6: for all texts \<open>a\<close>, \<open>b\<close> and every window length \<open>n\<close>, with \<open>A\<close> and \<open>B\<close> the sets
  of n-grams of \<open>a\<close> and \<open>b\<close>, \<open>calculate_ngram_overlap a b n\<close> is \<open>0\<close> when \<open>A\<close> is empty
  and \<open>|A \<inter> B| / |A| \<times> 100\<close> otherwise: the denominator is the size of the first
  document's set alone.
\<close>

theorem calculate_ngram_overlap_formula:
  "(set (get_ngrams a n) = {} \<longrightarrow> calculate_ngram_overlap a b n = 0) \<and>
   (set (get_ngrams a n) \<noteq> {} \<longrightarrow>
      calculate_ngram_overlap a b n =
        real (card (set (get_ngrams a n) \<inter> set (get_ngrams b n)))
          / real (card (set (get_ngrams a n))) * 100)"
  by (simp add: calculate_ngram_overlap_def Let_def)

lemma ngrams_abcd: "get_ngrams ''a b c d'' 3 = [''a b c'', ''b c d'']"
  by code_simp

lemma ngrams_abcxyz: "get_ngrams ''a b c x y z'' 3 = [''a b c'', ''b c x'', ''c x y'', ''x y z'']"
  by code_simp

lemma ngrams_ab: "get_ngrams ''a b'' 3 = []"
  by code_simp

theorem calculate_ngram_overlap_formula_witness:
  "set (get_ngrams ''a b'' 3) = {} \<and> calculate_ngram_overlap ''a b'' ''a b'' 3 = 0 \<and>
   set (get_ngrams ''a b c d'' 3) \<noteq> {} \<and>
   card (set (get_ngrams ''a b c d'' 3) \<inter> set (get_ngrams ''a b c x y z'' 3)) = 1 \<and>
   card (set (get_ngrams ''a b c d'' 3)) = 2 \<and>
   card (set (get_ngrams ''a b c x y z'' 3)) = 4 \<and>
   calculate_ngram_overlap ''a b c d'' ''a b c x y z'' 3 = 50"
  using calculate_ngram_overlap_formula [of "''a b''" 3 "''a b''"]
        calculate_ngram_overlap_formula [of "''a b c d''" 3 "''a b c x y z''"]
  by (simp add: ngrams_abcd ngrams_abcxyz ngrams_ab)

section \<open>The orchestration\<close>

lemma sum_list_insort_key:
  fixes g :: "'a \<Rightarrow> real"
  shows "(\<Sum>y\<leftarrow>insort_key f x xs. g y) = g x + (\<Sum>y\<leftarrow>xs. g y)"
  by (induction xs) auto

lemma sum_list_sort_key:
  fixes g :: "'a \<Rightarrow> real"
  shows "(\<Sum>y\<leftarrow>sort_key f xs. g y) = (\<Sum>y\<leftarrow>xs. g y)"
  by (induction xs) (auto simp: sum_list_insort_key)

lemma sum_list_sort_reverse:
  fixes g :: "'a \<Rightarrow> real"
  shows "(\<Sum>y\<leftarrow>sort_reverse f xs. g y) = (\<Sum>y\<leftarrow>xs. g y)"
proof -
  have "(\<Sum>y\<leftarrow>rev (sort_key f (rev xs)). g y) = (\<Sum>y\<leftarrow>sort_key f (rev xs). g y)"
    by (simp only: rev_map [symmetric] sum_list_rev)
  also have "\<dots> = (\<Sum>y\<leftarrow>rev xs. g y)"
    by (rule sum_list_sort_key)
  also have "\<dots> = (\<Sum>y\<leftarrow>xs. g y)"
    by (simp only: rev_map [symmetric] sum_list_rev)
  finally show ?thesis
    by (simp add: sort_reverse_def)
qed

lemma set_sort_reverse: "set (sort_reverse f xs) = set xs"
  by (simp add: sort_reverse_def)

lemma length_sort_reverse: "length (sort_reverse f xs) = length xs"
  by (simp add: sort_reverse_def)

lemma sort_reverse_descending: "sorted_wrt (\<lambda>x y. f x \<ge> f y) (sort_reverse f xs)"
proof -
  have "sorted (map f (sort_key f (rev xs)))"
    by (rule sorted_sort_key)
  then have "sorted_wrt (\<lambda>x y. f x \<le> f y) (sort_key f (rev xs))"
    by (simp add: sorted_wrt_map)
  then show ?thesis
    by (simp add: sort_reverse_def sorted_wrt_rev)
qed

lemma sort_reverse_stable:
  "filter (\<lambda>y. f y = k) (sort_reverse f xs) = filter (\<lambda>y. f y = k) xs"
  by (simp add: sort_reverse_def rev_filter [symmetric] sort_key_stable)

lemma score_references_eq:
  "score_references text refs srcs mx =
     (srcs @ map (source_match text) refs,
      foldl max mx (map (\<lambda>ref. similarity (source_match text ref)) refs))"
proof (induction refs arbitrary: srcs mx)
  case Nil
  then show ?case by simp
next
  case (Cons ref refs)
  show ?case
    by (simp add: Cons.IH Let_def source_match_def max_def)
qed

lemma foldl_max_Max:
  fixes xs :: "real list"
  shows "foldl max m xs = Max (insert m (set xs))"
proof (induction xs arbitrary: m)
  case Nil
  then show ?case by simp
next
  case (Cons x xs)
  have "Max (insert (max m x) (set xs)) = Max (insert m (insert x (set xs)))"
    by (cases "set xs = {}") (auto simp: max.assoc max.commute max.left_commute)
  with Cons show ?case by simp
qed

lemma analyze_corpus_result:
  "fst (analyze_corpus refs w self text use_apis verbose) =
     \<lparr>overall_score =
        (if refs \<noteq> [] then (\<Sum>ref\<leftarrow>refs. similarity (source_match text ref)) / real (length refs)
         else 0),
      word_count = length (split text),
      unique_words = card (set (map lower (split text))),
      max_match = foldl max 0 (map (\<lambda>ref. similarity (source_match text ref)) refs),
      sources_checked = length refs,
      sources = sort_reverse similarity (map (source_match text) refs),
      key_phrases = map classify_phrase (extract_key_phrases text 6 15),
      api_status = fst (api_checks w self text use_apis verbose (initial_status self)),
      timestamp = now_isoformat w\<rparr>"
  by (simp add: analyze_corpus_def Let_def case_prod_beta score_references_eq
      length_sort_reverse comp_def)

text \<open>
  C4: for every text (and every corpus, world, checker and flags), the \<open>sources\<close> of the
  result are in non-increasing order of \<open>similarity\<close>, and for every value \<open>k\<close> the
  entries of similarity \<open>k\<close> stand in the order of their references in the corpus.
\<close>

theorem analyze_sources_sorted_stable:
  "sorted_wrt (\<lambda>x y. similarity x \<ge> similarity y)
     (sources (fst (analyze_corpus refs w self text use_apis verbose))) \<and>
   (\<forall>k. filter (\<lambda>s. similarity s = k)
          (sources (fst (analyze_corpus refs w self text use_apis verbose))) =
        filter (\<lambda>s. similarity s = k) (map (source_match text) refs))"
  by (simp add: analyze_corpus_result sort_reverse_descending sort_reverse_stable)


subsection \<open>Scores are never negative\<close>

lemma calculate_tfidf_similarity_nonneg: "0 \<le> calculate_tfidf_similarity a b"
  by (auto simp: calculate_tfidf_similarity_def Let_def
      intro!: divide_nonneg_nonneg sum_nonneg mult_nonneg_nonneg)

lemma source_match_nonneg: "0 \<le> similarity (source_match text ref)"
  using calculate_tfidf_similarity_nonneg [of "text" "ref_text ref"]
        calculate_ngram_overlap_nonneg [of "text" "ref_text ref" 3]
  by (simp add: source_match_def)

subsection \<open>Mean and maximum\<close>

lemma max_match_is_Max:
  assumes "refs \<noteq> []"
  shows "foldl max 0 (map (\<lambda>ref. similarity (source_match text ref)) refs) =
         Max (set (map (\<lambda>ref. similarity (source_match text ref)) refs))"
proof -
  let ?S = "set (map (\<lambda>ref. similarity (source_match text ref)) refs)"
  have fin: "finite ?S" and ne: "?S \<noteq> {}"
    using assms by simp_all
  have "\<forall>x \<in> ?S. 0 \<le> x"
    by (auto simp: source_match_nonneg)
  then have "0 \<le> Max ?S"
    using fin ne by (meson Max_in)
  then have "Max (insert 0 ?S) = Max ?S"
    using fin ne by (simp add: max_def)
  then show ?thesis
    by (simp add: foldl_max_Max)
qed

text \<open>
  C3, amended: in exact arithmetic, for every text (and every corpus, world, checker and
  flags), \<open>overall_score\<close> is the arithmetic mean of the \<open>similarity\<close> values of the
  entries of \<open>sources\<close> and \<open>max_match\<close> is their maximum; both are \<open>0\<close> when \<open>sources\<close>
  is empty. (The float returned as \<open>overall_score\<close> is that mean up to rounding only;
  see below.)
\<close>

theorem analyze_overall_score_max_match:
  "(sources (fst (analyze_corpus refs w self text use_apis verbose)) = [] \<longrightarrow>
      overall_score (fst (analyze_corpus refs w self text use_apis verbose)) = 0 \<and>
      max_match (fst (analyze_corpus refs w self text use_apis verbose)) = 0) \<and>
   (sources (fst (analyze_corpus refs w self text use_apis verbose)) \<noteq> [] \<longrightarrow>
      overall_score (fst (analyze_corpus refs w self text use_apis verbose)) =
        (\<Sum>s\<leftarrow>sources (fst (analyze_corpus refs w self text use_apis verbose)). similarity s)
          / real (length (sources (fst (analyze_corpus refs w self text use_apis verbose)))) \<and>
      max_match (fst (analyze_corpus refs w self text use_apis verbose)) =
        Max (set (map similarity
          (sources (fst (analyze_corpus refs w self text use_apis verbose))))))"
proof (cases "refs = []")
  case True
  then show ?thesis
    by (simp add: analyze_corpus_result sort_reverse_def)
next
  case False
  have src: "sources (fst (analyze_corpus refs w self text use_apis verbose)) =
             sort_reverse similarity (map (source_match text) refs)"
    by (simp add: analyze_corpus_result)
  have "length (sources (fst (analyze_corpus refs w self text use_apis verbose))) = length refs"
    by (simp add: src length_sort_reverse)
  with False have ne: "sources (fst (analyze_corpus refs w self text use_apis verbose)) \<noteq> []"
    by auto
  have mean: "overall_score (fst (analyze_corpus refs w self text use_apis verbose)) =
        (\<Sum>s\<leftarrow>sources (fst (analyze_corpus refs w self text use_apis verbose)). similarity s)
          / real (length (sources (fst (analyze_corpus refs w self text use_apis verbose))))"
    using False
    by (simp add: analyze_corpus_result sum_list_sort_reverse length_sort_reverse comp_def)
  have "set (map similarity (sort_reverse similarity (map (source_match text) refs))) =
        set (map (\<lambda>ref. similarity (source_match text ref)) refs)"
    by (simp add: set_sort_reverse image_image)
  then have mx: "max_match (fst (analyze_corpus refs w self text use_apis verbose)) =
        Max (set (map similarity
          (sources (fst (analyze_corpus refs w self text use_apis verbose)))))"
    using max_match_is_Max [OF False, of "text"]
    by (simp add: analyze_corpus_result)
  from ne mean mx show ?thesis
    by simp
qed

text \<open>
  The text \<open>tb\<close> against a corpus of three short references: the scores are \<open>0\<close>, \<open>60\<close>
  and \<open>60\<close> in corpus order, so the second and third references come first, in that
  order.
\<close>

lemma words_tb: "split (clean_text ''tb'') = [''tb'']"
  by code_simp

lemma words_TB: "split (clean_text ''TB'') = [''tb'']"
  by code_simp

lemma words_tbx: "split (clean_text ''tb!'') = [''tb'']"
  by code_simp

lemma words_delay: "split (clean_text ''Delay.'') = [''delay'']"
  by code_simp

lemma ngrams_tb: "get_ngrams ''tb'' 3 = []"
  by code_simp

lemma small_corpus_matches:
  "map (source_match ''tb'') small_corpus =
     [\<lparr>name = ''First'', source_type = ''Note'', similarity = 0, url = None, matched_phrases = None\<rparr>,
      \<lparr>name = ''Second'', source_type = ''Note'', similarity = 60, url = None, matched_phrases = None\<rparr>,
      \<lparr>name = ''Third'', source_type = ''Note'', similarity = 60, url = None, matched_phrases = None\<rparr>]"
  by (simp add: small_corpus_def source_match_def calculate_tfidf_similarity_def
      calculate_ngram_overlap_def ngrams_tb words_tb words_TB words_tbx words_delay Let_def)

lemma small_corpus_sources:
  "sources (fst (analyze_corpus small_corpus offline_world (new_checker sample_config) ''tb'' False False)) =
     [\<lparr>name = ''Second'', source_type = ''Note'', similarity = 60, url = None, matched_phrases = None\<rparr>,
      \<lparr>name = ''Third'', source_type = ''Note'', similarity = 60, url = None, matched_phrases = None\<rparr>,
      \<lparr>name = ''First'', source_type = ''Note'', similarity = 0, url = None, matched_phrases = None\<rparr>]"
  by (simp add: analyze_corpus_result small_corpus_matches sort_reverse_def)

theorem analyze_overall_score_max_match_witness:
  "sources (fst (analyze_corpus [] offline_world (new_checker sample_config) ''tb'' False False)) = [] \<and>
   overall_score (fst (analyze_corpus [] offline_world (new_checker sample_config) ''tb'' False False)) = 0 \<and>
   max_match (fst (analyze_corpus [] offline_world (new_checker sample_config) ''tb'' False False)) = 0 \<and>
   map similarity (sources (fst (analyze_corpus small_corpus offline_world (new_checker sample_config) ''tb'' False False)))
     = [60, 60, 0] \<and>
   overall_score (fst (analyze_corpus small_corpus offline_world (new_checker sample_config) ''tb'' False False)) = 40 \<and>
   max_match (fst (analyze_corpus small_corpus offline_world (new_checker sample_config) ''tb'' False False)) = 60"
  using analyze_overall_score_max_match [of "[]" offline_world "new_checker sample_config" "''tb''" False False]
        analyze_overall_score_max_match [of small_corpus offline_world "new_checker sample_config" "''tb''" False False]
  by (simp add: small_corpus_sources) (simp add: analyze_corpus_result sort_reverse_def)


subsection \<open>The mean in binary64\<close>

text \<open>
  C3, as stated: \<open>overall_score\<close> equals the arithmetic mean of the similarity values of
  the entries of \<open>sources\<close>. Take the text \<open>a b c d\<close> and a corpus of the three references
  \<open>a\<close>, \<open>a b\<close> and \<open>a c\<close>. No reference has three words, so every overlap is \<open>0.0\<close>; the
  cosine measures are \<open>50.0\<close>, \<open>70.71067811865474\<close> and \<open>70.71067811865474\<close> (the only
  roots taken are those of \<open>1\<close>, \<open>0.25\<close> and \<open>0.5\<close>, and every sum is exact in any order),
  and the similarities are \<open>30.0\<close>, \<open>42.426406871192846\<close> and \<open>42.426406871192846\<close>.
  The code adds them in this order and divides by \<open>3\<close>: \<open>overall_score\<close> is
  \<open>38.2842712474619\<close>. It then sorts \<open>sources\<close>, which puts \<open>30.0\<close> last. The same sum and
  division over \<open>sources\<close> as returned give \<open>38.284271247461895\<close>, and the exact mean of
  the three floats is neither.
\<close>

theorem analyze_overall_score_max_match_counterexample:
  "overall_score_f64 (fst (analyze_f64 cpython rounding_corpus offline_world
       (new_checker sample_config) ''a b c d'' False False)) = (5388032178881888, - 47) \<and>
   map similarity_f64 (sources_f64 (fst (analyze_f64 cpython rounding_corpus offline_world
       (new_checker sample_config) ''a b c d'' False False))) =
     [(5970985942992911, - 47), (5970985942992911, - 47), (8444249301319680, - 48)] \<and>
   div64 (sum64 [(5970985942992911, - 47), (5970985942992911, - 47), (8444249301319680, - 48)])
     (3, 0) = (5388032178881887, - 47) \<and>
   f64_value (5388032178881888, - 47) \<noteq> f64_value (5388032178881887, - 47) \<and>
   f64_value (5388032178881888, - 47) \<noteq>
     (f64_value (5970985942992911, - 47) + f64_value (5970985942992911, - 47)
        + f64_value (8444249301319680, - 48)) / 3"
proof -
  have "overall_score_f64 (fst (analyze_f64 cpython rounding_corpus offline_world
       (new_checker sample_config) ''a b c d'' False False)) = (5388032178881888, - 47)"
    by code_simp
  moreover have "map similarity_f64 (sources_f64 (fst (analyze_f64 cpython rounding_corpus
       offline_world (new_checker sample_config) ''a b c d'' False False))) =
     [(5970985942992911, - 47), (5970985942992911, - 47), (8444249301319680, - 48)]"
    by code_simp
  moreover have "div64 (sum64 [(5970985942992911, - 47), (5970985942992911, - 47),
       (8444249301319680, - 48)]) (3, 0) = (5388032178881887, - 47)"
    by code_simp
  moreover have "f64_value (5388032178881888, - 47) \<noteq> f64_value (5388032178881887, - 47)"
    by (simp add: f64_value_def)
  moreover have "f64_value (5388032178881888, - 47) \<noteq>
     (f64_value (5970985942992911, - 47) + f64_value (5970985942992911, - 47)
        + f64_value (8444249301319680, - 48)) / 3"
    by (simp add: f64_value_def)
  ultimately show ?thesis
    by blast
qed

subsection \<open>The empty text\<close>

lemma split_empty: "split [] = []"
  by (simp add: split_def)

lemma words_of_empty: "split (clean_text []) = []"
  by code_simp

lemma calculate_tfidf_similarity_empty: "calculate_tfidf_similarity [] b = 0"
  by (simp add: calculate_tfidf_similarity_def words_of_empty)

lemma get_ngrams_empty: "get_ngrams [] 3 = []"
  by code_simp

lemma calculate_ngram_overlap_empty: "calculate_ngram_overlap [] b 3 = 0"
  by (simp add: calculate_ngram_overlap_def get_ngrams_empty)

lemma source_match_empty:
  "source_match [] ref =
     \<lparr>name = ref_name ref, source_type = ref_type ref, similarity = 0,
      url = None, matched_phrases = None\<rparr>"
  by (simp add: source_match_def calculate_tfidf_similarity_empty calculate_ngram_overlap_empty)

text \<open>
  C8: \<open>analyze\<close> on the empty string, against the default corpus of five references
  (whatever the world, the checker and the flags), returns \<open>overall_score = 0\<close>,
  \<open>max_match = 0\<close>, \<open>sources_checked = 5\<close>, \<open>word_count = 0\<close> and \<open>unique_words = 0\<close>,
  and \<open>sources\<close> holds one entry per reference, in corpus order, each of similarity \<open>0\<close>.
  The model of \<open>analyze\<close> has no error branch: nothing on this path can raise.
\<close>

theorem analyze_empty_text:
  "length ACADEMIC_REFERENCES = 5 \<and>
   overall_score (fst (analyze w self [] use_apis verbose)) = 0 \<and>
   max_match (fst (analyze w self [] use_apis verbose)) = 0 \<and>
   sources_checked (fst (analyze w self [] use_apis verbose)) = 5 \<and>
   word_count (fst (analyze w self [] use_apis verbose)) = 0 \<and>
   unique_words (fst (analyze w self [] use_apis verbose)) = 0 \<and>
   sources (fst (analyze w self [] use_apis verbose)) =
     map (\<lambda>ref. \<lparr>name = ref_name ref, source_type = ref_type ref, similarity = 0,
                  url = None, matched_phrases = None\<rparr>) ACADEMIC_REFERENCES"
  by (simp add: analyze_def analyze_corpus_result source_match_empty split_empty
      ACADEMIC_REFERENCES_def sort_reverse_def)


section \<open>External checks\<close>

lemma api_checks_quiet: "api_checks w self text use_apis False status = (status, self, [])"
  by (simp add: api_checks_def split: option.splits)

lemma api_checks_off: "api_checks w self text False verbose status = (status, self, [])"
  by (simp add: api_checks_def)

lemma analyze_corpus_events:
  "snd (snd (analyze_corpus refs w self text use_apis verbose)) =
     (if verbose then [Print StartingAnalysis, Print RunningTfidf, Print ExtractingPhrases] else [])
     @ snd (snd (api_checks w self text use_apis verbose (initial_status self)))"
  by (simp add: analyze_corpus_def Let_def case_prod_beta)

lemma analyze_corpus_checker:
  "fst (snd (analyze_corpus refs w self text use_apis verbose)) =
     fst (snd (api_checks w self text use_apis verbose (initial_status self)))"
  by (simp add: analyze_corpus_def Let_def case_prod_beta)

lemma initial_status_values:
  "snd ` set (initial_status self) \<subseteq> {''Ready'', ''Not configured'', ''Active''}"
  by (simp add: initial_status_def)

text \<open>
  C10: for every text, corpus, world and checker, a call of \<open>analyze\<close> with
  \<open>verbose = False\<close> makes no request to a remote service (it produces no event at all
  and leaves the checker as it was) and returns \<open>api_status\<close> as first built, every
  value one of \<open>Ready\<close>, \<open>Not configured\<close> and \<open>Active\<close>, whatever \<open>use_apis\<close> is; a
  request is made only when \<open>use_apis\<close> and \<open>verbose\<close> are both true.
\<close>

theorem analyze_external_checks_gated:
  "(\<not> verbose \<longrightarrow>
      snd (snd (analyze_corpus refs w self text use_apis verbose)) = [] \<and>
      fst (snd (analyze_corpus refs w self text use_apis verbose)) = self \<and>
      api_status (fst (analyze_corpus refs w self text use_apis verbose)) = initial_status self \<and>
      snd ` set (api_status (fst (analyze_corpus refs w self text use_apis verbose)))
        \<subseteq> {''Ready'', ''Not configured'', ''Active''}) \<and>
   ((\<exists>s. Request s \<in> set (snd (snd (analyze_corpus refs w self text use_apis verbose))))
      \<longrightarrow> use_apis \<and> verbose)"
proof (intro conjI impI)
  assume "\<not> verbose"
  then have v: "verbose = False" by simp
  show "snd (snd (analyze_corpus refs w self text use_apis verbose)) = []"
    by (simp add: v analyze_corpus_events api_checks_quiet)
  show "fst (snd (analyze_corpus refs w self text use_apis verbose)) = self"
    by (simp add: v analyze_corpus_checker api_checks_quiet)
  show st: "api_status (fst (analyze_corpus refs w self text use_apis verbose)) = initial_status self"
    by (simp add: v analyze_corpus_result api_checks_quiet)
  show "snd ` set (api_status (fst (analyze_corpus refs w self text use_apis verbose)))
        \<subseteq> {''Ready'', ''Not configured'', ''Active''}"
    unfolding st by (rule initial_status_values)
next
  assume ex: "\<exists>s. Request s \<in> set (snd (snd (analyze_corpus refs w self text use_apis verbose)))"
  show "use_apis"
  proof (rule ccontr)
    assume "\<not> use_apis"
    then have "snd (snd (analyze_corpus refs w self text use_apis verbose)) =
      (if verbose then [Print StartingAnalysis, Print RunningTfidf, Print ExtractingPhrases] else [])"
      by (simp add: analyze_corpus_events api_checks_off)
    with ex show False by (auto split: if_splits)
  qed
  show "verbose"
  proof (rule ccontr)
    assume "\<not> verbose"
    then have "snd (snd (analyze_corpus refs w self text use_apis verbose)) = []"
      by (simp add: analyze_corpus_events api_checks_quiet)
    with ex show False by simp
  qed
qed

lemma sample_checker:
  "new_checker sample_config =
     \<lparr>config = sample_config,
      copyleaks = Some \<lparr>email = ''user@example.org'', api_key = ''key'', token = None\<rparr>,
      zerogpt = Some \<lparr>zerogpt_api_key = ''key''\<rparr>,
      google = None\<rparr>"
  by (simp add: new_checker_def sample_config_def truthy_def)

lemma online_events:
  "snd (snd (analyze_corpus refs online_world (new_checker sample_config) text True True)) =
     [Print StartingAnalysis, Print RunningTfidf, Print ExtractingPhrases,
      Print RunningCopyleaks, Request CopyleaksLogin, Request CopyleaksScan,
      Print RunningZeroGPT, Request ZeroGPTDetect]"
  by (simp add: analyze_corpus_events sample_checker api_checks_def check_plagiarism_def
      login_def check_def online_world_def truthy_def Let_def)

lemma online_status:
  "api_status (fst (analyze_corpus refs online_world (new_checker sample_config) text True True)) =
     [(''Copyleaks'', ''Submitted''), (''ZeroGPT'', ''Complete''),
      (''Google Scholar'', ''Not configured''), (''Local TF-IDF'', ''Active''),
      (''N-gram Analysis'', ''Active'')]"
  by (simp add: analyze_corpus_result sample_checker api_checks_def check_plagiarism_def
      login_def check_def online_world_def truthy_def truthy_result_def initial_status_def Let_def)

lemma offline_status:
  "api_status (fst (analyze_corpus refs offline_world (new_checker sample_config) text True True)) =
     [(''Copyleaks'', ''Error''), (''ZeroGPT'', ''Error''),
      (''Google Scholar'', ''Not configured''), (''Local TF-IDF'', ''Active''),
      (''N-gram Analysis'', ''Active'')]"
  by (simp add: analyze_corpus_result sample_checker api_checks_def check_plagiarism_def
      login_def check_def offline_world_def truthy_def truthy_result_def initial_status_def Let_def)

theorem analyze_external_checks_gated_witness:
  "snd (snd (analyze_corpus small_corpus online_world (new_checker sample_config) ''tb'' True False)) = [] \<and>
   api_status (fst (analyze_corpus small_corpus online_world (new_checker sample_config) ''tb'' True False)) =
     [(''Copyleaks'', ''Ready''), (''ZeroGPT'', ''Ready''),
      (''Google Scholar'', ''Not configured''), (''Local TF-IDF'', ''Active''),
      (''N-gram Analysis'', ''Active'')] \<and>
   Request CopyleaksScan \<in>
     set (snd (snd (analyze_corpus small_corpus online_world (new_checker sample_config) ''tb'' True True)))"
  using analyze_external_checks_gated
          [of False small_corpus online_world "new_checker sample_config" "''tb''" True]
        analyze_external_checks_gated
          [of True small_corpus online_world "new_checker sample_config" "''tb''" True]
  by (simp add: online_events) (simp add: initial_status_def sample_checker)


section \<open>Determinism\<close>

lemma api_checks_configured:
  "(copyleaks (fst (snd (api_checks w self text use_apis verbose status))) = None) = (copyleaks self = None) \<and>
   zerogpt (fst (snd (api_checks w self text use_apis verbose status))) = zerogpt self \<and>
   google (fst (snd (api_checks w self text use_apis verbose status))) = google self"
  by (auto simp: api_checks_def Let_def case_prod_beta split: option.splits)

lemma initial_status_after:
  "initial_status (fst (snd (api_checks w self text use_apis verbose status))) = initial_status self"
  using api_checks_configured [of w self "text" use_apis verbose status]
  by (simp add: initial_status_def)

lemma check_plagiarism_again:
  assumes "login_reply wa = login_reply wb" "scan_reply wa = scan_reply wb"
  shows "truthy_result (fst (check_plagiarism wb (fst (snd (check_plagiarism wa api text sb))) text sb)) =
         truthy_result (fst (check_plagiarism wa api text sb))"
  using assms
  by (auto simp: check_plagiarism_def login_def truthy_result_def Let_def
      split: reply.splits prod.splits if_splits)

lemma check_again:
  assumes "zerogpt_reply wa = zerogpt_reply wb"
  shows "fst (check wb api text) = fst (check wa api text)"
  using assms by (simp add: check_def split: reply.splits)

lemma api_checks_again:
  assumes "same_replies wa wb"
  shows "fst (api_checks wb (fst (snd (api_checks wa self text use_apis verbose status)))
               text use_apis verbose status) =
         fst (api_checks wa self text use_apis verbose status)"
proof -
  from assms have l: "login_reply wa = login_reply wb" and s: "scan_reply wa = scan_reply wb"
    and z: "zerogpt_reply wa = zerogpt_reply wb"
    by (simp_all add: same_replies_def)
  show ?thesis
    using check_plagiarism_again [OF l s] check_again [OF z]
    by (auto simp: api_checks_def Let_def case_prod_beta split: option.splits)
qed

subsection \<open>The result in binary64, on a platform\<close>

lemma score_references_f64_eq:
  "score_references_f64 p text refs srcs mx =
     (srcs @ map (source_match_f64 p text) refs,
      foldl later_max mx (map (\<lambda>ref. combined_f64 p text (ref_text ref)) refs))"
proof (induction refs arbitrary: srcs mx)
  case Nil
  then show ?case by simp
next
  case (Cons ref refs)
  show ?case
    by (simp add: Cons.IH Let_def source_match_f64_def later_max_def)
qed

lemma analyze_f64_result:
  "fst (analyze_f64 p refs w self text use_apis verbose) =
     \<lparr>overall_score_f64 =
        (if refs \<noteq> []
         then div64 (float_sum p (map (\<lambda>ref. combined_f64 p text (ref_text ref)) refs))
                (int (length refs), 0)
         else (0, 0)),
      word_count_f64 = length (split text),
      unique_words_f64 = card (set (map lower (split text))),
      max_match_f64 =
        foldl later_max (0, 0) (map (\<lambda>ref. combined_f64 p text (ref_text ref)) refs),
      sources_checked_f64 = length refs,
      sources_f64 = sort_reverse similarity_value (map (source_match_f64 p text) refs),
      key_phrases_f64 = map classify_phrase (extract_key_phrases text 6 15),
      api_status_f64 = fst (api_checks w self text use_apis verbose (initial_status self)),
      timestamp_f64 = now_isoformat w\<rparr>"
  by (simp add: analyze_f64_def Let_def case_prod_beta score_references_f64_eq
      length_sort_reverse comp_def source_match_f64_def)

lemma later_max_value: "f64_value (later_max mx c) = max (f64_value mx) (f64_value c)"
  by (simp add: later_max_def max_def)

lemma foldl_later_max_value:
  "f64_value (foldl later_max mx cs) = Max (insert (f64_value mx) (f64_value ` set cs))"
proof (induction cs arbitrary: mx)
  case Nil
  then show ?case by simp
next
  case (Cons c cs)
  have "Max (insert (max (f64_value mx) (f64_value c)) (f64_value ` set cs)) =
        Max (insert (f64_value mx) (insert (f64_value c) (f64_value ` set cs)))"
    by (cases "set cs = {}") (auto simp: max.assoc max.commute max.left_commute)
  with Cons show ?case
    by (simp add: later_max_value)
qed

text \<open>
  In binary64 too, and on every platform, \<open>max_match\<close> is the largest of \<open>0.0\<close> and the
  similarity values of \<open>sources\<close>: it is found by comparisons, which do not round.
\<close>

lemma max_match_f64_value:
  "f64_value (max_match_f64 (fst (analyze_f64 p refs w self text use_apis verbose))) =
     Max (insert 0 (similarity_value `
       set (sources_f64 (fst (analyze_f64 p refs w self text use_apis verbose)))))"
proof -
  have zero: "f64_value (0, 0) = 0"
    by (simp add: f64_value_def)
  have "f64_value ` set (map (\<lambda>ref. combined_f64 p text (ref_text ref)) refs) =
        similarity_value ` set (map (source_match_f64 p text) refs)"
    by (simp add: image_image similarity_value_def source_match_f64_def)
  then have "f64_value (foldl later_max (0, 0)
               (map (\<lambda>ref. combined_f64 p text (ref_text ref)) refs)) =
             Max (insert 0 (similarity_value ` set (map (source_match_f64 p text) refs)))"
    by (simp only: foldl_later_max_value zero)
  then show ?thesis
    by (simp add: analyze_f64_result set_sort_reverse)
qed

lemma analyze_f64_checker:
  "fst (snd (analyze_f64 p refs w self text use_apis verbose)) =
     fst (snd (api_checks w self text use_apis verbose (initial_status self)))"
  by (simp add: analyze_f64_def Let_def case_prod_beta)

lemma count_list_insort_key:
  "count_list (map g (insort_key f x xs)) y = count_list (map g (x # xs)) y"
  by (induction xs) auto

lemma count_list_sort_key:
  "count_list (map g (sort_key f xs)) y = count_list (map g xs) y"
  by (induction xs) (auto simp: count_list_insort_key)

lemma count_list_sort_reverse:
  "count_list (map g (sort_reverse f xs)) y = count_list (map g xs) y"
proof -
  have "count_list (map g (rev (sort_key f (rev xs)))) y = count_list (rev (map g (sort_key f (rev xs)))) y"
    by (simp only: rev_map)
  also have "\<dots> = count_list (map g (rev xs)) y"
    by (simp add: count_list_sort_key)
  also have "\<dots> = count_list (rev (map g xs)) y"
    by (simp only: rev_map)
  finally show ?thesis
    by (simp add: sort_reverse_def)
qed

lemma source_labels:
  "count_list (map source_label (sources_f64 (fst (analyze_f64 p refs w self text use_apis verbose)))) x =
   count_list (map (\<lambda>ref. (ref_name ref, ref_type ref)) refs) x"
  by (simp add: analyze_f64_result count_list_sort_reverse comp_def source_label_def
      source_match_f64_def)

text \<open>
  C9, amended: take two successive calls of \<open>analyze\<close> on the same checker, with the
  same text, corpus and flags, on platforms \<open>pa\<close> and \<open>pb\<close> and in worlds \<open>wa\<close> and \<open>wb\<close>.
  Their results agree in \<open>word_count\<close>, \<open>unique_words\<close>, \<open>sources_checked\<close> and
  \<open>key_phrases\<close>, and \<open>sources\<close> holds the same names and types as often. When the two calls
  run on the same platform (the same iteration order of sets, \<open>pow\<close> and \<open>sum\<close>, as within
  one interpreter process) the results agree in every field except \<open>timestamp\<close> and
  \<open>api_status\<close>: in the similarity values, the order of \<open>sources\<close>, \<open>overall_score\<close> and
  \<open>max_match\<close> too. They agree in \<open>api_status\<close> when \<open>use_apis\<close> or \<open>verbose\<close> is false, or
  when the remote services give the same answers to both calls.
\<close>

theorem analyze_deterministic:
  "let ra = fst (analyze_f64 pa refs wa self text use_apis verbose);
       rb = fst (analyze_f64 pb refs wb (fst (snd (analyze_f64 pa refs wa self text use_apis verbose)))
                  text use_apis verbose)
   in word_count_f64 rb = word_count_f64 ra \<and>
      unique_words_f64 rb = unique_words_f64 ra \<and>
      sources_checked_f64 rb = sources_checked_f64 ra \<and>
      key_phrases_f64 rb = key_phrases_f64 ra \<and>
      (\<forall>x. count_list (map source_label (sources_f64 rb)) x =
           count_list (map source_label (sources_f64 ra)) x) \<and>
      (pa = pb \<longrightarrow>
         rb\<lparr>timestamp_f64 := t, api_status_f64 := s\<rparr> =
         ra\<lparr>timestamp_f64 := t, api_status_f64 := s\<rparr>) \<and>
      (\<not> (use_apis \<and> verbose) \<or> same_replies wa wb \<longrightarrow>
         api_status_f64 rb = api_status_f64 ra)"
proof -
  let ?c1 = "fst (snd (api_checks wa self text use_apis verbose (initial_status self)))"
  have status: "fst (api_checks wb ?c1 text use_apis verbose (initial_status self)) =
        fst (api_checks wa self text use_apis verbose (initial_status self))"
    if "\<not> (use_apis \<and> verbose) \<or> same_replies wa wb"
  proof (cases "use_apis \<and> verbose")
    case True
    with that have "same_replies wa wb" by simp
    then show ?thesis by (rule api_checks_again)
  next
    case False
    then show ?thesis
      by (auto simp: api_checks_off api_checks_quiet)
  qed
  show ?thesis
    unfolding Let_def
  proof (intro conjI impI allI)
    fix x
    show "count_list (map source_label (sources_f64 (fst (analyze_f64 pb refs wb
              (fst (snd (analyze_f64 pa refs wa self text use_apis verbose))) text use_apis verbose)))) x =
          count_list (map source_label (sources_f64 (fst (analyze_f64 pa refs wa self text use_apis verbose)))) x"
      by (simp only: source_labels)
  next
    assume "pa = pb"
    then show "fst (analyze_f64 pb refs wb (fst (snd (analyze_f64 pa refs wa self text use_apis verbose)))
                  text use_apis verbose)\<lparr>timestamp_f64 := t, api_status_f64 := s\<rparr> =
          fst (analyze_f64 pa refs wa self text use_apis verbose)\<lparr>timestamp_f64 := t, api_status_f64 := s\<rparr>"
      by (simp add: analyze_f64_result)
  next
    assume "\<not> (use_apis \<and> verbose) \<or> same_replies wa wb"
    then show "api_status_f64 (fst (analyze_f64 pb refs wb
              (fst (snd (analyze_f64 pa refs wa self text use_apis verbose))) text use_apis verbose)) =
          api_status_f64 (fst (analyze_f64 pa refs wa self text use_apis verbose))"
      using status by (simp add: analyze_f64_result analyze_f64_checker initial_status_after)
  qed (simp_all add: analyze_f64_result)
qed


lemma online_status_f64:
  "api_status_f64 (fst (analyze_f64 p refs online_world (new_checker sample_config) text
       True True)) =
     [(''Copyleaks'', ''Submitted''), (''ZeroGPT'', ''Complete''),
      (''Google Scholar'', ''Not configured''), (''Local TF-IDF'', ''Active''),
      (''N-gram Analysis'', ''Active'')]"
  by (simp add: analyze_f64_result sample_checker api_checks_def check_plagiarism_def
      login_def check_def online_world_def truthy_def truthy_result_def initial_status_def Let_def)

theorem analyze_deterministic_witness:
  "same_replies online_world online_world \<and>
   api_status_f64 (fst (analyze_f64 cpython small_corpus online_world
       (fst (snd (analyze_f64 cpython small_corpus online_world (new_checker sample_config)
          ''tb'' True True))) ''tb'' True True)) =
     [(''Copyleaks'', ''Submitted''), (''ZeroGPT'', ''Complete''),
      (''Google Scholar'', ''Not configured''), (''Local TF-IDF'', ''Active''),
      (''N-gram Analysis'', ''Active'')] \<and>
   fst (analyze_f64 cpython small_corpus online_world
       (fst (snd (analyze_f64 cpython small_corpus online_world (new_checker sample_config)
          ''tb'' True True))) ''tb'' True True)
     \<lparr>timestamp_f64 := [], api_status_f64 := []\<rparr> =
   fst (analyze_f64 cpython small_corpus online_world (new_checker sample_config)
          ''tb'' True True)\<lparr>timestamp_f64 := [], api_status_f64 := []\<rparr> \<and>
   word_count_f64 (fst (analyze_f64 cpython_reseeded small_corpus offline_world
       (fst (snd (analyze_f64 cpython small_corpus online_world (new_checker sample_config)
          ''tb'' True False))) ''tb'' True False)) =
   word_count_f64 (fst (analyze_f64 cpython small_corpus online_world
       (new_checker sample_config) ''tb'' True False)) \<and>
   api_status_f64 (fst (analyze_f64 cpython_reseeded small_corpus offline_world
       (fst (snd (analyze_f64 cpython small_corpus online_world (new_checker sample_config)
          ''tb'' True False))) ''tb'' True False)) =
   api_status_f64 (fst (analyze_f64 cpython small_corpus online_world
       (new_checker sample_config) ''tb'' True False))"
  using analyze_deterministic
          [where pa = cpython and pb = cpython and refs = small_corpus
             and wa = online_world and wb = online_world
             and self = "new_checker sample_config" and use_apis = True and verbose = True
             and t = "[]" and s = "[]", of "''tb''"]
        analyze_deterministic
          [where pa = cpython and pb = cpython_reseeded and refs = small_corpus
             and wa = online_world and wb = offline_world
             and self = "new_checker sample_config" and use_apis = True and verbose = False
             and t = "[]" and s = "[]", of "''tb''"]
  by (simp add: Let_def same_replies_def online_status_f64)

text \<open>
  C9, as stated: two calls with the same text, corpus and flags give results that differ
  in \<open>timestamp\<close> only. First, with \<open>use_apis\<close> and \<open>verbose\<close> true and Copyleaks and
  ZeroGPT configured, \<open>api_status\<close> records what the services answered: a first call that
  reaches them and a second call that does not (both at the same clock reading) differ
  there. Second, the sums of the cosine measure run in the iteration order of the
  vocabulary: for the text \<open>a\<close> against the one reference \<open>a a a b c\<close> the order
  \<open>a, b, c\<close> gives the measure \<open>90.45340337332908\<close> and the similarity and
  \<open>overall_score\<close> \<open>54.27204202399745\<close>, the order \<open>c, b, a\<close> gives \<open>90.4534033733291\<close> and
  \<open>54.27204202399746\<close>.
\<close>

theorem analyze_deterministic_counterexample:
  "api_status (fst (analyze online_world (new_checker sample_config) ''tb'' True True)) =
     [(''Copyleaks'', ''Submitted''), (''ZeroGPT'', ''Complete''),
      (''Google Scholar'', ''Not configured''), (''Local TF-IDF'', ''Active''),
      (''N-gram Analysis'', ''Active'')] \<and>
   api_status (fst (analyze offline_world
       (fst (snd (analyze online_world (new_checker sample_config) ''tb'' True True)))
       ''tb'' True True)) =
     [(''Copyleaks'', ''Error''), (''ZeroGPT'', ''Error''),
      (''Google Scholar'', ''Not configured''), (''Local TF-IDF'', ''Active''),
      (''N-gram Analysis'', ''Active'')] \<and>
   now_isoformat online_world = now_isoformat offline_world \<and>
   overall_score_f64 (fst (analyze_f64 cpython order_corpus offline_world
       (new_checker sample_config) ''a'' False False)) = (7638110882372213, - 47) \<and>
   overall_score_f64 (fst (analyze_f64 cpython_reseeded order_corpus offline_world
       (new_checker sample_config) ''a'' False False)) = (7638110882372214, - 47)"
proof -
  have "overall_score_f64 (fst (analyze_f64 cpython order_corpus offline_world
       (new_checker sample_config) ''a'' False False)) = (7638110882372213, - 47)"
    by code_simp
  moreover have "overall_score_f64 (fst (analyze_f64 cpython_reseeded order_corpus offline_world
       (new_checker sample_config) ''a'' False False)) = (7638110882372214, - 47)"
    by code_simp
  ultimately show ?thesis
    by (simp add: analyze_def analyze_corpus_result analyze_corpus_checker sample_checker
        api_checks_def check_plagiarism_def login_def check_def online_world_def
        offline_world_def truthy_def truthy_result_def initial_status_def Let_def)
qed

lemma order_changes_cosine:
  "calculate_tfidf_similarity_on cpython ''a'' ''a a a b c'' = (6365092401976844, - 46) \<and>
   calculate_tfidf_similarity_on cpython_reseeded ''a'' ''a a a b c'' = (6365092401976845, - 46)"
  by code_simp

section \<open>Key phrase extraction\<close>

lemma extract_loop_step:
  "extract_loop mw mp (s # ss) phrases seen =
     (if qualifies mw s \<and> lower (phrase_of mw s) \<notin> seen
      then (if int (length phrases) + 1 \<ge> mp then phrases @ [phrase_of mw s]
            else extract_loop mw mp ss (phrases @ [phrase_of mw s]) (insert (lower (phrase_of mw s)) seen))
      else extract_loop mw mp ss phrases seen)"
  by (auto simp: qualifies_def phrase_of_def Let_def)

lemma qualifying_phrases_Cons:
  "qualifying_phrases mw (s # ss) =
     (if qualifies mw s then phrase_of mw s # qualifying_phrases mw ss else qualifying_phrases mw ss)"
  by (simp add: qualifying_phrases_def)

lemma qualifying_phrases_Nil: "qualifying_phrases mw [] = []"
  by (simp add: qualifying_phrases_def)

declare extract_loop.simps(2) [simp del]

lemma extract_loop_distinct:
  "seen = set (map lower phrases) \<Longrightarrow> distinct (map lower phrases) \<Longrightarrow>
   distinct (map lower (extract_loop mw mp ss phrases seen))"
proof (induction ss arbitrary: phrases seen)
  case Nil
  then show ?case by simp
next
  case (Cons s ss)
  show ?case
  proof (cases "qualifies mw s \<and> lower (phrase_of mw s) \<notin> seen")
    case True
    have d: "distinct (map lower (phrases @ [phrase_of mw s]))"
      using True Cons.prems by auto
    have s: "insert (lower (phrase_of mw s)) seen = set (map lower (phrases @ [phrase_of mw s]))"
      using Cons.prems by auto
    show ?thesis
      using True d Cons.IH [OF s d] by (simp add: extract_loop_step)
  next
    case False
    then show ?thesis
      using Cons.IH [OF Cons.prems] by (auto simp: extract_loop_step)
  qed
qed

lemma extract_loop_subseq:
  "\<exists>ys. extract_loop mw mp ss phrases seen = phrases @ ys \<and> subseq ys (qualifying_phrases mw ss)"
proof (induction ss arbitrary: phrases seen)
  case Nil
  then show ?case by (simp add: qualifying_phrases_Nil)
next
  case (Cons s ss)
  show ?case
  proof (cases "qualifies mw s \<and> lower (phrase_of mw s) \<notin> seen")
    case True
    show ?thesis
    proof (cases "int (length phrases) + 1 \<ge> mp")
      case stop: True
      have "subseq [phrase_of mw s] (phrase_of mw s # qualifying_phrases mw ss)"
        by simp
      with True stop show ?thesis
        by (auto simp: extract_loop_step qualifying_phrases_Cons)
    next
      case go: False
      obtain ys where ys: "extract_loop mw mp ss (phrases @ [phrase_of mw s])
            (insert (lower (phrase_of mw s)) seen) = (phrases @ [phrase_of mw s]) @ ys"
          "subseq ys (qualifying_phrases mw ss)"
        using Cons.IH by blast
      have "subseq (phrase_of mw s # ys) (phrase_of mw s # qualifying_phrases mw ss)"
        using ys(2) by simp
      with True go ys(1) show ?thesis
        by (auto simp: extract_loop_step qualifying_phrases_Cons)
    qed
  next
    case False
    obtain ys where ys: "extract_loop mw mp ss phrases seen = phrases @ ys"
        "subseq ys (qualifying_phrases mw ss)"
      using Cons.IH by blast
    have "subseq ys (qualifying_phrases mw (s # ss))"
      using ys(2) by (auto simp: qualifying_phrases_Cons)
    with False ys(1) show ?thesis
      by (auto simp: extract_loop_step)
  qed
qed

lemma extract_loop_length:
  "finite seen \<Longrightarrow> int (length phrases) < mp \<Longrightarrow>
   length (extract_loop mw mp ss phrases seen) =
     min (nat mp) (length phrases + card (lower ` set (qualifying_phrases mw ss) - seen))"
proof (induction ss arbitrary: phrases seen)
  case Nil
  then show ?case by (simp add: qualifying_phrases_Nil)
next
  case (Cons s ss)
  let ?p = "phrase_of mw s"
  let ?L = "lower ` set (qualifying_phrases mw ss)"
  show ?case
  proof (cases "qualifies mw s \<and> lower ?p \<notin> seen")
    case True
    have set_eq: "lower ` set (qualifying_phrases mw (s # ss)) - seen =
                  insert (lower ?p) (?L - insert (lower ?p) seen)"
      using True by (auto simp: qualifying_phrases_Cons)
    have fin: "finite (?L - insert (lower ?p) seen)" by simp
    have card_eq: "card (lower ` set (qualifying_phrases mw (s # ss)) - seen) =
                   Suc (card (?L - insert (lower ?p) seen))"
      unfolding set_eq using fin by (subst card_insert_disjoint) auto
    show ?thesis
    proof (cases "int (length phrases) + 1 \<ge> mp")
      case stop: True
      with Cons.prems(2) have "nat mp = length phrases + 1" by linarith
      with True stop show ?thesis
        by (simp add: extract_loop_step card_eq)
    next
      case go: False
      have f': "finite (insert (lower ?p) seen)" using Cons.prems(1) by simp
      have l': "int (length (phrases @ [?p])) < mp" using go by simp
      show ?thesis
        using True go Cons.IH [OF f' l'] by (simp add: extract_loop_step card_eq)
    qed
  next
    case False
    have skip: "extract_loop mw mp (s # ss) phrases seen = extract_loop mw mp ss phrases seen"
      using False by (subst extract_loop_step) auto
    have "lower ` set (qualifying_phrases mw (s # ss)) - seen = ?L - seen"
      using False by (auto simp: qualifying_phrases_Cons)
    with Cons.IH [OF Cons.prems] show ?thesis
      by (simp add: skip)
  qed
qed

text \<open>
  C7, amended: for every text and every \<open>min_words\<close> and \<open>max_phrases\<close>, the phrases
  returned by \<open>extract_key_phrases\<close> are pairwise distinct case-insensitively and form a
  subsequence of the phrases of the qualifying sentences, taken in the order of the
  sentences in the text. For \<open>max_phrases \<ge> 1\<close> there are at most \<open>max_phrases\<close> of them,
  and exactly the smaller of \<open>max_phrases\<close> and the number of case-insensitively distinct
  qualifying phrases: a text with \<open>max_phrases + 5\<close> such phrases gives \<open>max_phrases\<close>
  results, and a sentence repeated gives its phrase once.
\<close>

theorem extract_key_phrases_properties:
  "distinct (map lower (extract_key_phrases text mw mp)) \<and>
   subseq (extract_key_phrases text mw mp) (qualifying_phrases mw (re_split_terminators text)) \<and>
   (1 \<le> mp \<longrightarrow>
      length (extract_key_phrases text mw mp) \<le> nat mp \<and>
      length (extract_key_phrases text mw mp) =
        min (nat mp) (card (lower ` set (qualifying_phrases mw (re_split_terminators text)))))"
proof (intro conjI impI)
  show "distinct (map lower (extract_key_phrases text mw mp))"
    unfolding extract_key_phrases_def by (rule extract_loop_distinct) simp_all
  show "subseq (extract_key_phrases text mw mp) (qualifying_phrases mw (re_split_terminators text))"
    using extract_loop_subseq [of mw mp "re_split_terminators text" "[]" "{}"]
    by (auto simp: extract_key_phrases_def)
next
  assume "1 \<le> mp"
  then have len: "length (extract_key_phrases text mw mp) =
        min (nat mp) (card (lower ` set (qualifying_phrases mw (re_split_terminators text))))"
    using extract_loop_length [of "{}" "[]" mp mw "re_split_terminators text"]
    by (simp add: extract_key_phrases_def)
  then show "length (extract_key_phrases text mw mp) =
        min (nat mp) (card (lower ` set (qualifying_phrases mw (re_split_terminators text))))" .
  from len show "length (extract_key_phrases text mw mp) \<le> nat mp" by simp
qed


lemma phrases_text_qualifying:
  "qualifying_phrases 2 (re_split_terminators phrases_text) =
     [''tuberculosis diagnosis'', ''Tuberculosis Diagnosis'', ''systematic metaanalysis'']"
  by code_simp

lemma phrases_text_distinct:
  "card {lower ''tuberculosis diagnosis'', lower ''Tuberculosis Diagnosis'',
         lower ''systematic metaanalysis''} = 2"
  by code_simp

theorem extract_key_phrases_properties_witness:
  "(1::int) \<le> 2 \<and>
   distinct (map lower (extract_key_phrases phrases_text 2 2)) \<and>
   subseq (extract_key_phrases phrases_text 2 2)
     [''tuberculosis diagnosis'', ''Tuberculosis Diagnosis'', ''systematic metaanalysis''] \<and>
   length (extract_key_phrases phrases_text 2 2) = 2"
  using extract_key_phrases_properties [of phrases_text 2 2]
  by (simp add: phrases_text_qualifying phrases_text_distinct)

text \<open>
  C7, as stated: the phrases returned number at most \<open>max_phrases\<close>. The loop appends a
  phrase and only then compares the count with \<open>max_phrases\<close>, so with \<open>max_phrases = 0\<close>
  a text with a qualifying sentence gives one phrase.
\<close>

theorem extract_key_phrases_cap_counterexample:
  "extract_key_phrases ''tuberculosis diagnosis'' 2 0 = [''tuberculosis diagnosis'']"
  by code_simp


section \<open>The cosine measure in exact arithmetic\<close>

lemma cauchy_schwarz_sum:
  fixes f g :: "'a \<Rightarrow> real"
  assumes "finite A"
  shows "(\<Sum>i\<in>A. f i * g i)\<^sup>2 \<le> (\<Sum>i\<in>A. (f i)\<^sup>2) * (\<Sum>i\<in>A. (g i)\<^sup>2)"
proof -
  let ?F = "\<Sum>i\<in>A. (f i)\<^sup>2" and ?D = "\<Sum>i\<in>A. f i * g i" and ?G = "\<Sum>i\<in>A. (g i)\<^sup>2"
  have quad: "0 \<le> ?F * t\<^sup>2 - 2 * ?D * t + ?G" for t
  proof -
    have "0 \<le> (\<Sum>i\<in>A. (f i * t - g i)\<^sup>2)"
      by (intro sum_nonneg) simp
    also have "(\<Sum>i\<in>A. (f i * t - g i)\<^sup>2) =
               (\<Sum>i\<in>A. (f i)\<^sup>2 * t\<^sup>2 - 2 * (f i * g i) * t + (g i)\<^sup>2)"
      by (intro sum.cong refl) (simp add: power2_diff power_mult_distrib algebra_simps)
    also have "\<dots> = ?F * t\<^sup>2 - 2 * ?D * t + ?G"
      by (simp add: sum.distrib sum_subtractf sum_distrib_right sum_distrib_left)
    finally show ?thesis .
  qed
  show ?thesis
  proof (cases "?F = 0")
    case True
    then have "\<forall>i\<in>A. (f i)\<^sup>2 = 0"
      using assms by (subst (asm) sum_nonneg_eq_0_iff) auto
    then have "?D = 0"
      by (intro sum.neutral) auto
    with True show ?thesis by simp
  next
    case False
    have "0 \<le> ?F" by (intro sum_nonneg) simp
    with False have pos: "0 < ?F" by simp
    from quad [of "?D / ?F"] have "0 \<le> ?F * (?D / ?F)\<^sup>2 - 2 * ?D * (?D / ?F) + ?G" .
    also have "?F * (?D / ?F)\<^sup>2 - 2 * ?D * (?D / ?F) + ?G = ?G - ?D\<^sup>2 / ?F"
      using pos by (simp add: power2_eq_square field_simps)
    finally have "?D\<^sup>2 / ?F \<le> ?G" by simp
    with pos show ?thesis
      by (simp add: pos_divide_le_eq mult.commute)
  qed
qed

lemma cosine_le_one:
  fixes f g :: "'a \<Rightarrow> real"
  assumes "finite A" "\<forall>i\<in>A. 0 \<le> f i" "\<forall>i\<in>A. 0 \<le> g i"
  shows "(\<Sum>i\<in>A. f i * g i) \<le> sqrt (\<Sum>i\<in>A. (f i)\<^sup>2) * sqrt (\<Sum>i\<in>A. (g i)\<^sup>2)"
proof -
  have nn: "0 \<le> (\<Sum>i\<in>A. f i * g i)"
    using assms by (intro sum_nonneg mult_nonneg_nonneg) auto
  have "(\<Sum>i\<in>A. f i * g i) = sqrt ((\<Sum>i\<in>A. f i * g i)\<^sup>2)"
    using nn by simp
  also have "\<dots> \<le> sqrt ((\<Sum>i\<in>A. (f i)\<^sup>2) * (\<Sum>i\<in>A. (g i)\<^sup>2))"
    using cauchy_schwarz_sum [OF assms(1), of f g] by (simp only: real_sqrt_le_iff)
  finally show ?thesis
    by (simp add: real_sqrt_mult)
qed

lemma calculate_tfidf_similarity_le: "calculate_tfidf_similarity a b \<le> 100"
proof -
  let ?w1 = "split (clean_text a)" and ?w2 = "split (clean_text b)"
  let ?V = "set (?w1 @ ?w2)"
  let ?f = "\<lambda>w. real (count_list ?w1 w) / real (length ?w1)"
  let ?g = "\<lambda>w. real (count_list ?w2 w) / real (length ?w2)"
  let ?n1 = "sqrt (\<Sum>w\<in>?V. (?f w)\<^sup>2)" and ?n2 = "sqrt (\<Sum>w\<in>?V. (?g w)\<^sup>2)"
  have le: "(\<Sum>w\<in>?V. ?f w * ?g w) \<le> ?n1 * ?n2"
    by (rule cosine_le_one) auto
  have n1: "0 \<le> ?n1" and n2: "0 \<le> ?n2"
    by (auto intro!: sum_nonneg)
  show ?thesis
  proof (cases "?w1 = [] \<or> ?w2 = [] \<or> ?n1 = 0 \<or> ?n2 = 0")
    case True
    then show ?thesis
      by (auto simp: calculate_tfidf_similarity_def Let_def)
  next
    case False
    then have "0 < ?n1 * ?n2"
      using n1 n2 by (simp add: less_le)
    with le have "(\<Sum>w\<in>?V. ?f w * ?g w) / (?n1 * ?n2) \<le> 1"
      by (simp add: divide_le_eq)
    then have "(\<Sum>w\<in>?V. ?f w * ?g w) / (?n1 * ?n2) * 100 \<le> 1 * 100"
      by (intro mult_right_mono) simp_all
    moreover have "calculate_tfidf_similarity a b =
                   (\<Sum>w\<in>?V. ?f w * ?g w) / (?n1 * ?n2) * 100"
      using False unfolding calculate_tfidf_similarity_def Let_def by simp
    ultimately show ?thesis
      by linarith
  qed
qed

text \<open>
  C2, amended: for every text \<open>x\<close> whose normalized token sequence is non-empty,
  \<open>calculate_tfidf_similarity x x\<close> is \<open>100\<close> in exact arithmetic. (In binary64 the value
  returned is \<open>100.0\<close> up to rounding only; see the last section.)
\<close>

theorem calculate_tfidf_similarity_self:
  assumes "split (clean_text x) \<noteq> []"
  shows "calculate_tfidf_similarity x x = 100"
proof -
  let ?w = "split (clean_text x)"
  let ?f = "\<lambda>w. real (count_list ?w w) / real (length ?w)"
  let ?S = "\<Sum>w\<in>set (?w @ ?w). (?f w)\<^sup>2"
  obtain v where v: "v \<in> set ?w"
    using assms by (cases ?w) auto
  then have "count_list ?w v \<noteq> 0"
    by (simp add: count_list_0_iff)
  then have "0 < count_list ?w v"
    by simp
  then have "0 < (?f v)\<^sup>2"
    using assms by simp
  moreover have "(?f v)\<^sup>2 \<le> ?S"
    using v by (intro member_le_sum) auto
  ultimately have pos: "0 < ?S" by linarith
  then have "sqrt ?S \<noteq> 0" by simp
  moreover have "(\<Sum>w\<in>set (?w @ ?w). ?f w * ?f w) = ?S"
    by (simp add: power2_eq_square)
  moreover have "?S / (sqrt ?S * sqrt ?S) = 1"
    using pos by simp
  ultimately show ?thesis
    using assms by (simp add: calculate_tfidf_similarity_def Let_def)
qed


lemma words_ab: "split (clean_text ''a b'') = [''a'', ''b'']"
  by code_simp

theorem calculate_tfidf_similarity_self_witness:
  "split (clean_text ''a b'') \<noteq> [] \<and> calculate_tfidf_similarity ''a b'' ''a b'' = 100"
  using calculate_tfidf_similarity_self [of "''a b''"] by (simp add: words_ab)

section \<open>Similarity values in range\<close>

lemma source_match_le: "similarity (source_match text ref) \<le> 100"
  using calculate_tfidf_similarity_le [of "text" "ref_text ref"]
        calculate_ngram_overlap_le [of "text" "ref_text ref" 3]
  by (simp add: source_match_def)

lemma sum_list_bounds:
  fixes f :: "'a \<Rightarrow> real"
  assumes "\<And>x. x \<in> set xs \<Longrightarrow> 0 \<le> f x \<and> f x \<le> c"
  shows "0 \<le> (\<Sum>x\<leftarrow>xs. f x) \<and> (\<Sum>x\<leftarrow>xs. f x) \<le> c * real (length xs)"
  using assms
proof (induction xs)
  case Nil
  then show ?case by simp
next
  case (Cons x xs)
  have "0 \<le> f x \<and> f x \<le> c" using Cons.prems by simp
  moreover have "0 \<le> (\<Sum>x\<leftarrow>xs. f x) \<and> (\<Sum>x\<leftarrow>xs. f x) \<le> c * real (length xs)"
    using Cons.IH Cons.prems by simp
  ultimately show ?case by (simp add: algebra_simps)
qed

lemma overall_score_bounds:
  "0 \<le> overall_score (fst (analyze_corpus refs w self text use_apis verbose)) \<and>
   overall_score (fst (analyze_corpus refs w self text use_apis verbose)) \<le> 100"
proof (cases "refs = []")
  case True
  then show ?thesis by (simp add: analyze_corpus_result)
next
  case False
  have b: "0 \<le> (\<Sum>ref\<leftarrow>refs. similarity (source_match text ref)) \<and>
        (\<Sum>ref\<leftarrow>refs. similarity (source_match text ref)) \<le> 100 * real (length refs)"
    by (rule sum_list_bounds) (simp add: source_match_nonneg source_match_le)
  have pos: "0 < real (length refs)" using False by simp
  have "(\<Sum>ref\<leftarrow>refs. similarity (source_match text ref)) / real (length refs) \<le> 100"
    using b pos by (simp add: pos_divide_le_eq)
  moreover have "0 \<le> (\<Sum>ref\<leftarrow>refs. similarity (source_match text ref)) / real (length refs)"
    using b by simp
  ultimately show ?thesis
    using False by (simp add: analyze_corpus_result)
qed

lemma max_match_bounds:
  "0 \<le> max_match (fst (analyze_corpus refs w self text use_apis verbose)) \<and>
   max_match (fst (analyze_corpus refs w self text use_apis verbose)) \<le> 100"
proof -
  let ?S = "insert 0 (set (map (\<lambda>ref. similarity (source_match text ref)) refs))"
  have "\<forall>x\<in>?S. 0 \<le> x \<and> x \<le> 100"
    by (auto simp: source_match_nonneg source_match_le)
  moreover have "Max ?S \<in> ?S"
    by (rule Max_in) simp_all
  ultimately have "0 \<le> Max ?S \<and> Max ?S \<le> 100"
    by blast
  then show ?thesis
    by (simp add: analyze_corpus_result foldl_max_Max)
qed

lemma sources_bounds:
  "list_all (\<lambda>s. 0 \<le> similarity s \<and> similarity s \<le> 100)
     (sources (fst (analyze_corpus refs w self text use_apis verbose)))"
  by (auto simp: analyze_corpus_result list_all_iff set_sort_reverse
      source_match_nonneg source_match_le)

text \<open>
  C5, amended: in exact arithmetic every similarity value lies in \<open>[0, 100]\<close>:
  \<open>calculate_tfidf_similarity\<close> and \<open>calculate_ngram_overlap\<close> for all texts and window
  lengths, and with them the \<open>similarity\<close> of every entry of \<open>sources\<close>, \<open>overall_score\<close>
  and \<open>max_match\<close> of every result of \<open>analyze\<close>. (In binary64 the cosine measure can
  exceed \<open>100\<close> by rounding; see the last section.)
\<close>

theorem similarity_values_in_range:
  "0 \<le> calculate_tfidf_similarity a b \<and> calculate_tfidf_similarity a b \<le> 100 \<and>
   0 \<le> calculate_ngram_overlap a b n \<and> calculate_ngram_overlap a b n \<le> 100 \<and>
   list_all (\<lambda>s. 0 \<le> similarity s \<and> similarity s \<le> 100)
     (sources (fst (analyze_corpus refs w self text use_apis verbose))) \<and>
   0 \<le> overall_score (fst (analyze_corpus refs w self text use_apis verbose)) \<and>
   overall_score (fst (analyze_corpus refs w self text use_apis verbose)) \<le> 100 \<and>
   0 \<le> max_match (fst (analyze_corpus refs w self text use_apis verbose)) \<and>
   max_match (fst (analyze_corpus refs w self text use_apis verbose)) \<le> 100"
  using calculate_tfidf_similarity_nonneg [of a b] calculate_tfidf_similarity_le [of a b]
        calculate_ngram_overlap_nonneg [of a b n] calculate_ngram_overlap_le [of a b n]
        sources_bounds [of refs w self "text" use_apis verbose]
        overall_score_bounds [of refs w self "text" use_apis verbose]
        max_match_bounds [of refs w self "text" use_apis verbose]
  by blast


section \<open>The cosine measure in binary64\<close>

text \<open>
  The square roots that the two examples below take are the correctly rounded ones:
  each lies within half a unit in the last place of the real square root.
\<close>

lemma sqrt64_half: "sqrt64 (1, - 1) = (6369051672525773, - 53)"
  by code_simp

lemma sqrt64_half_nearest:
  "\<bar>sqrt (1 / 2) - 6369051672525773 / 2 ^ 53\<bar> < 1 / 2 ^ 54"
proof -
  have lo: "(6369051672525773 / 2 ^ 53 - 1 / 2 ^ 54 :: real) < sqrt (1 / 2)"
    by (rule real_less_rsqrt) (simp add: power2_eq_square)
  have hi: "sqrt (1 / 2) < (6369051672525773 / 2 ^ 53 + 1 / 2 ^ 54 :: real)"
    by (rule real_less_lsqrt) (simp_all add: power2_eq_square)
  from lo hi show ?thesis
    unfolding abs_less_iff by linarith
qed

lemma sqrt64_three_eighths: "sqrt64 (3, - 3) = (5515760546423086, - 53)"
  by code_simp

lemma sqrt64_three_eighths_nearest:
  "\<bar>sqrt (3 / 8) - 5515760546423086 / 2 ^ 53\<bar> < 1 / 2 ^ 54"
proof -
  have lo: "(5515760546423086 / 2 ^ 53 - 1 / 2 ^ 54 :: real) < sqrt (3 / 8)"
    by (rule real_less_rsqrt) (simp add: power2_eq_square)
  have hi: "sqrt (3 / 8) < (5515760546423086 / 2 ^ 53 + 1 / 2 ^ 54 :: real)"
    by (rule real_less_lsqrt) (simp_all add: power2_eq_square)
  from lo hi show ?thesis
    unfolding abs_less_iff by linarith
qed

text \<open>
  The cosine measure of the examples is the one on the platform \<open>cpython\<close>, with the
  iteration order left open.
\<close>

lemma calculate_tfidf_similarity_f64_on:
  "calculate_tfidf_similarity_f64 order a b =
     calculate_tfidf_similarity_on
       \<lparr>set_order = order, pow_half = sqrt64, pow_two = square64, float_sum = sum64\<rparr> a b"
  by (simp add: calculate_tfidf_similarity_f64_def calculate_tfidf_similarity_on_def
      square_term_def square_term_on_def square64_def Let_def cong: map_cong)

text \<open>
  C2, as stated: \<open>calculate_tfidf_similarity(x, x)\<close> returns exactly \<open>100.0\<close>. For \<open>x = 'a b'\<close>
  both term frequencies are \<open>0.5\<close>, the dot product and the sums of squares are \<open>0.5\<close>
  exactly, each norm is \<open>0.7071067811865476\<close>, their product is \<open>0.5000000000000001\<close>,
  the quotient is \<open>0.9999999999999998\<close> and the value returned is
  \<open>99.99999999999997\<close>, which is \<open>100 - 2\<^sup>-\<^sup>4\<^sup>5\<close>.
\<close>

theorem calculate_tfidf_similarity_self_counterexample:
  "split (clean_text ''a b'') = [''a'', ''b''] \<and>
   calculate_tfidf_similarity_f64 remdups ''a b'' ''a b'' = (7036874417766398, - 46) \<and>
   f64_value (7036874417766398, - 46) = 100 - 1 / 2 ^ 45"
proof -
  have "calculate_tfidf_similarity_f64 remdups ''a b'' ''a b'' = (7036874417766398, - 46)"
    by code_simp
  moreover have "f64_value (7036874417766398, - 46) = 100 - 1 / 2 ^ 45"
    by (simp add: f64_value_def)
  ultimately show ?thesis
    by (simp add: words_ab)
qed

text \<open>The other iteration order of the vocabulary gives the same value.\<close>

lemma f64_ab_other_order:
  "calculate_tfidf_similarity_f64 (\<lambda>ws. [''b'', ''a'']) ''a b'' ''a b'' = (7036874417766398, - 46)"
  by code_simp

text \<open>
  C5, as stated: \<open>calculate_tfidf_similarity\<close> returns a value in \<open>[0, 100]\<close> for all pairs
  of texts. For \<open>'a a b c'\<close> against itself the term frequencies are \<open>0.5\<close>, \<open>0.25\<close> and
  \<open>0.25\<close>, the dot product and the sums of squares are \<open>0.375\<close> exactly, each norm is
  \<open>0.6123724356957945\<close>, their product is \<open>0.37499999999999994\<close>, the quotient is
  \<open>1.0000000000000002\<close> and the value returned is \<open>100.00000000000003\<close>, which is
  \<open>100 + 2\<^sup>-\<^sup>4\<^sup>5\<close>.
\<close>

theorem similarity_values_in_range_counterexample:
  "calculate_tfidf_similarity_f64 remdups ''a a b c'' ''a a b c'' = (7036874417766402, - 46) \<and>
   f64_value (7036874417766402, - 46) = 100 + 1 / 2 ^ 45"
proof -
  have "calculate_tfidf_similarity_f64 remdups ''a a b c'' ''a a b c'' = (7036874417766402, - 46)"
    by code_simp
  moreover have "f64_value (7036874417766402, - 46) = 100 + 1 / 2 ^ 45"
    by (simp add: f64_value_def)
  ultimately show ?thesis
    by simp
qed

text \<open>
  Every sum of this example is exact in whatever order it is taken, so the value does
  not depend on the iteration order of the vocabulary.
\<close>

lemma f64_aabc_order_acb:
  "calculate_tfidf_similarity_f64 (\<lambda>ws. [''a'', ''c'', ''b'']) ''a a b c'' ''a a b c'' =
     (7036874417766402, - 46)"
  by code_simp

lemma f64_aabc_order_bac:
  "calculate_tfidf_similarity_f64 (\<lambda>ws. [''b'', ''a'', ''c'']) ''a a b c'' ''a a b c'' =
     (7036874417766402, - 46)"
  by code_simp

lemma f64_aabc_order_bca:
  "calculate_tfidf_similarity_f64 (\<lambda>ws. [''b'', ''c'', ''a'']) ''a a b c'' ''a a b c'' =
     (7036874417766402, - 46)"
  by code_simp

lemma f64_aabc_order_cab:
  "calculate_tfidf_similarity_f64 (\<lambda>ws. [''c'', ''a'', ''b'']) ''a a b c'' ''a a b c'' =
     (7036874417766402, - 46)"
  by code_simp

lemma f64_aabc_order_cba:
  "calculate_tfidf_similarity_f64 (\<lambda>ws. [''c'', ''b'', ''a'']) ''a a b c'' ''a a b c'' =
     (7036874417766402, - 46)"
  by code_simp

end
